theory Spec2Isabelle
  imports Complex_Main
begin

section \<open>JavaScript values\<close>

text \<open>
  A JavaScript \<open>number\<close> is \<open>NaN\<close>, one of the two infinities, or a finite value. A finite
  value is represented by the rational number it denotes (every finite double is a
  rational; \<open>0\<close> and \<open>-0\<close> are identified, which \<open>===\<close>, \<open>>=\<close>, \<open>String\<close> and
  \<open>JSON.stringify\<close> do as well).
\<close>

datatype number = NaN | PosInfinity | NegInfinity | Finite rat

definition is_integer :: "rat \<Rightarrow> bool" where
  "is_integer r = (of_int \<lfloor>r\<rfloor> = r)"

text \<open>
  The binary exponent of a positive rational: the \<open>e\<close> with \<open>2^e \<le> x < 2^(e+1)\<close>, found by
  doubling or halving \<open>x\<close> into the interval from 1 to 2.
\<close>

function binade :: "rat \<Rightarrow> int" where
  "binade x =
     (if x \<le> 0 then 0
      else if x < 1 then binade (2 * x) - 1
      else if 2 \<le> x then binade (x / 2) + 1
      else 0)"
  by pat_completeness auto
termination
proof (relation "measure (\<lambda>x. if 1 \<le> x then nat \<lfloor>x\<rfloor> else 1 + nat \<lfloor>1 / x\<rfloor>)")
  show "wf (measure (\<lambda>x::rat. if 1 \<le> x then nat \<lfloor>x\<rfloor> else 1 + nat \<lfloor>1 / x\<rfloor>))"
    by simp
next
  have half: "\<lfloor>y / 2\<rfloor> < \<lfloor>y\<rfloor>" if y: "1 \<le> y" for y :: rat
  proof -
    have "of_int (\<lfloor>y / 2\<rfloor> + 1) \<le> y"
    proof (cases "2 \<le> y")
      case True
      have "of_int \<lfloor>y / 2\<rfloor> \<le> y / 2" by (rule of_int_floor_le)
      then show ?thesis using True by simp
    next
      case False
      then have "\<lfloor>y / 2\<rfloor> = 0" using y by (simp add: floor_eq_iff)
      then show ?thesis using y by simp
    qed
    then have "\<lfloor>y / 2\<rfloor> + 1 \<le> \<lfloor>y\<rfloor>" by (simp only: le_floor_iff)
    then show ?thesis by simp
  qed
  {
    fix x :: rat
    assume a: "\<not> x \<le> 0" "x < 1"
    have inv: "1 \<le> 1 / x" using a by simp
    have fl: "\<lfloor>1 / x / 2\<rfloor> < \<lfloor>1 / x\<rfloor>" using inv by (rule half)
    have pos: "0 \<le> \<lfloor>1 / x / 2\<rfloor>" using a by simp
    show "(2 * x, x) \<in> measure (\<lambda>x. if 1 \<le> x then nat \<lfloor>x\<rfloor> else 1 + nat \<lfloor>1 / x\<rfloor>)"
    proof (cases "1 \<le> 2 * x")
      case True
      then have "\<lfloor>2 * x\<rfloor> = 1" using a by (simp add: floor_eq_iff)
      moreover have "1 \<le> \<lfloor>1 / x\<rfloor>" using inv by simp
      ultimately show ?thesis using a True by simp
    next
      case False
      have e: "1 / (2 * x) = 1 / x / 2" by simp
      have m_new: "(if 1 \<le> 2 * x then nat \<lfloor>2 * x\<rfloor> else 1 + nat \<lfloor>1 / (2 * x)\<rfloor>)
                     = 1 + nat \<lfloor>1 / x / 2\<rfloor>"
        using False by (simp only: e if_False)
      have m_old: "(if 1 \<le> x then nat \<lfloor>x\<rfloor> else 1 + nat \<lfloor>1 / x\<rfloor>)
                     = 1 + nat \<lfloor>1 / x\<rfloor>"
        using a by simp
      show ?thesis unfolding in_measure m_new m_old using fl pos by linarith
    qed
  }
  {
    fix x :: rat
    assume a: "\<not> x \<le> 0" "\<not> x < 1" "2 \<le> x"
    have "\<lfloor>x / 2\<rfloor> < \<lfloor>x\<rfloor>" using a by (intro half) simp
    moreover have "0 \<le> \<lfloor>x / 2\<rfloor>" using a by simp
    ultimately
    show "(x / 2, x) \<in> measure (\<lambda>x. if 1 \<le> x then nat \<lfloor>x\<rfloor> else 1 + nat \<lfloor>1 / x\<rfloor>)"
      using a by simp
  }
qed

declare binade.simps [simp del]

text \<open>Rounding to the nearest integer, a tie going to the even one.\<close>

definition round_half_even :: "rat \<Rightarrow> int" where
  "round_half_even x =
     (let f = \<lfloor>x\<rfloor>; d = x - of_int f in
      if d < 1 / 2 then f else if 1 / 2 < d then f + 1 else if even f then f else f + 1)"

text \<open>
  The double nearest to a rational (IEEE 754 binary64, round to nearest, ties to even),
  which is the number that a decimal literal of that value denotes. The doubles of
  binary exponent \<open>e\<close> are the multiples of \<open>2^(e - 52)\<close>; below \<open>2^(-1022)\<close> the spacing
  stays \<open>2^(-1074)\<close>; a result of \<open>2^1024\<close> or more is infinite.
\<close>

definition nearest_double :: "rat \<Rightarrow> number" where
  "nearest_double x =
     (let a = \<bar>x\<bar>;
          e = max (binade a) (- 1022);
          q = 2 powi (e - 52);
          v = of_int (round_half_even (a / q)) * q
      in if 2 powi 1024 \<le> v then (if x < 0 then NegInfinity else PosInfinity)
         else Finite (if x < 0 then - v else v))"

text \<open>\<open>a === b\<close> and \<open>a !== b\<close> on numbers: \<open>NaN\<close> is equal to nothing, itself included.\<close>

definition strict_eq :: "number \<Rightarrow> number \<Rightarrow> bool" where
  "strict_eq a b = (a \<noteq> NaN \<and> b \<noteq> NaN \<and> a = b)"

text \<open>\<open>n >= 0\<close>.\<close>

fun ge_zero :: "number \<Rightarrow> bool" where
  "ge_zero NaN = False"
| "ge_zero PosInfinity = True"
| "ge_zero NegInfinity = False"
| "ge_zero (Finite r) = (0 \<le> r)"

fun Number_isFinite :: "number \<Rightarrow> bool" where
  "Number_isFinite (Finite r) = True"
| "Number_isFinite _ = False"

text \<open>\<open>Number.isSafeInteger\<close>: an integer of magnitude at most \<open>2^53 - 1\<close>.\<close>

fun Number_isSafeInteger :: "number \<Rightarrow> bool" where
  "Number_isSafeInteger (Finite r) = (is_integer r \<and> \<bar>r\<bar> \<le> 2 ^ 53 - 1)"
| "Number_isSafeInteger _ = False"

text \<open>
  The values that the code puts into a JSON payload, and the JSON document that the
  server reads back (\<open>JSON.stringify\<close> followed by the server's \<open>JSON.parse\<close>). An
  object is the list of its properties in insertion order.
\<close>

datatype jsval =
    JUndefined
  | JNull
  | JBoolean bool
  | JNumber number
  | JString string
  | JArray "jsval list"
  | JObject "(string \<times> jsval) list"

datatype json =
    Null
  | Bool bool
  | Num rat
  | Str string
  | Arr "json list"
  | Obj "(string \<times> json) list"

text \<open>
  \<open>JSON.stringify\<close>: a property whose value is \<open>undefined\<close> is left out of its object, an
  \<open>undefined\<close> array element and a non-finite number become \<open>null\<close>, and \<open>undefined\<close>
  itself has no JSON text (\<open>None\<close>: the request then carries no body).
\<close>

fun JSON_stringify :: "jsval \<Rightarrow> json option" where
  "JSON_stringify JUndefined = None"
| "JSON_stringify JNull = Some Null"
| "JSON_stringify (JBoolean b) = Some (Bool b)"
| "JSON_stringify (JNumber n) = Some (case n of Finite r \<Rightarrow> Num r | _ \<Rightarrow> Null)"
| "JSON_stringify (JString s) = Some (Str s)"
| "JSON_stringify (JArray xs) =
     Some (Arr (map (\<lambda>x. case JSON_stringify x of None \<Rightarrow> Null | Some j \<Rightarrow> j) xs))"
| "JSON_stringify (JObject kvs) =
     Some (Obj (concat (map (\<lambda>(k, v). case JSON_stringify v of None \<Rightarrow> [] | Some j \<Rightarrow> [(k, j)]) kvs)))"

text \<open>\<open>key in obj\<close> and \<open>obj[key]\<close> on a parsed JSON value.\<close>

fun has_key :: "string \<Rightarrow> json \<Rightarrow> bool" where
  "has_key k (Obj kvs) = (k \<in> set (map fst kvs))"
| "has_key k _ = False"

fun member :: "string \<Rightarrow> json \<Rightarrow> json option" where
  "member k (Obj kvs) = map_of kvs k"
| "member k _ = None"

section \<open>Errors\<close>

datatype http_method = GET | PUT | POST

text \<open>
  Every exception the code can raise: \<open>AssertionError\<close> from \<open>assert\<close> (with its message),
  the three errors thrown by the response hooks, \<open>SyntaxError\<close> from parsing a body that
  is not JSON, \<open>SchemaError\<close> from \<open>schemas.assertValid\<close> (with the route), and a plain
  \<open>Error\<close> (with its message).
\<close>

datatype error =
    AssertionError string
  | PermissionError http_method string
  | AuthError
  | APIError nat
  | SyntaxError
  | SchemaError string
  | Error string

text \<open>\<open>assert(expr, msg)\<close> of the standard library; the message defaults to the empty string.\<close>

definition assert :: "bool \<Rightarrow> string \<Rightarrow> error + unit" where
  "assert expr msg = (if expr then Inr () else Inl (AssertionError msg))"

section \<open>Input validation (api.ts)\<close>

text \<open>The character class \<open>[0-9a-f\-]\<close> under the flag \<open>i\<close>.\<close>

definition udid_char :: "char \<Rightarrow> bool" where
  "udid_char c = (c \<in> set ''0123456789abcdefABCDEF-'')"

text \<open>\<open>/^[0-9a-f\-]+$/i.test(udid)\<close>: one or more characters, all of the class.\<close>

definition isValidUDID :: "string \<Rightarrow> bool" where
  "isValidUDID udid = (udid \<noteq> [] \<and> list_all udid_char udid)"

definition assertValidUDID :: "string \<Rightarrow> error + unit" where
  "assertValidUDID udid = assert (isValidUDID udid) (''Invalid UDID: '' @ udid)"

definition isValidID :: "number \<Rightarrow> bool" where
  "isValidID n = (Number_isFinite n \<and> Number_isSafeInteger n \<and> ge_zero n)"

definition assertValidID :: "number \<Rightarrow> error + unit" where
  "assertValidID n = assert (isValidID n) ''Invalid ID: must be a positive integer.''"

text \<open>\<open>xs.forEach(f)\<close> for a callback that may throw: the first exception ends the loop.\<close>

fun forEach :: "('a \<Rightarrow> error + unit) \<Rightarrow> 'a list \<Rightarrow> error + unit" where
  "forEach f [] = Inr ()"
| "forEach f (x # xs) = (case f x of Inl e \<Rightarrow> Inl e | Inr _ \<Rightarrow> forEach f xs)"

section \<open>Snapshots (raw records)\<close>

text \<open>
  The raw record of a device as \<open>GET /devices\<close> returns it, with the fields that the
  \<open>Device\<close> class reads or compares. The optional properties \<open>coordinates\<close> and \<open>apps\<close>
  are \<open>None\<close> when the key is absent.
\<close>

record region_data =
  region_string :: string
  region_coordinates :: "string option"

record owner_data =
  owner_id :: number
  owner_name :: string

record installed_app =
  inst_name :: string
  inst_identifier :: string
  inst_version :: string

record device_data =
  UDID :: string
  locationId :: number
  serialNumber :: string
  deviceName :: string
  assetTag :: string
  owner :: owner_data
  groups :: "string list"
  region :: region_data
  apps :: "installed_app list option"
  deviceNotes :: string

text \<open>
  The \<open>device\<close> member of a \<open>GET /devices/:udid\<close> response. \<open>Device.getApps\<close> reads one
  thing from it, the optional array \<open>apps\<close>.
\<close>

record device_detail =
  detail_UDID :: string
  detail_apps :: "installed_app list option"

text \<open>The raw record of an app (an element of \<open>GET /apps\<close>, and the body of \<open>GET /apps/:id\<close>).\<close>

record app_data =
  app_id :: number
  app_bundleId :: string
  app_name :: string
  app_locationId :: number

section \<open>Transport\<close>

record request =
  rq_method :: http_method
  rq_path :: string
  rq_searchParams :: "(string \<times> string) list option"
  rq_json :: "json option"

text \<open>
  A response body is kept in decoded form, tagged with the route schema that it
  satisfies: \<open>schemas.assertValid(route, data)\<close> followed by the projection of the
  payload is then a case distinction on the tag. \<open>WriteAck route\<close> is a body that
  satisfies the schema of the write route \<open>route\<close>; \<open>Unrecognised\<close> is JSON that satisfies
  no schema; \<open>NotJSON\<close> is a body that \<open>.json()\<close> cannot parse.
\<close>

datatype body =
    NotJSON
  | Unrecognised
  | DevicesBody "device_data list"
  | DeviceBody device_detail
  | AppsBody "app_data list"
  | AppBody app_data
  | WriteAck string

record response =
  status :: nat
  body :: body

text \<open>Which of two pending calls settles first.\<close>

datatype settle_order = FirstSettlesFirst | SecondSettlesFirst

text \<open>
  The environment of an \<open>API\<close> object: the remote service behind \<open>this.http\<close> (its answer
  may depend on the requests it has received before), the order in which two
  outstanding responses arrive, the pathname of the \<open>url\<close> that the object was created
  with, ending in a slash (\<open>/\<close> for a \<open>url\<close> without a path), and the text that the
  JavaScript engine prints for a finite number that is not an integer of magnitude
  below \<open>2^53\<close> (the shortest digits that read back as the same double, in a layout that
  depends on the magnitude).
\<close>

record env =
  fetch :: "request list \<Rightarrow> request \<Rightarrow> response"
  race :: "request list \<Rightarrow> settle_order"
  prefix_pathname :: string
  engine_toString :: "rat \<Rightarrow> string"

text \<open>
  An asynchronous call is a function from the list of the requests sent so far to its
  outcome and the extended list.
\<close>

type_synonym 'a io = "request list \<Rightarrow> (error + 'a) \<times> request list"

definition io_return :: "'a \<Rightarrow> 'a io" where
  "io_return x sent = (Inr x, sent)"

definition io_throw :: "error \<Rightarrow> 'a io" where
  "io_throw e sent = (Inl e, sent)"

definition io_bind :: "'a io \<Rightarrow> ('a \<Rightarrow> 'b io) \<Rightarrow> 'b io" where
  "io_bind m k sent = (case m sent of (Inl e, sent') \<Rightarrow> (Inl e, sent') | (Inr x, sent') \<Rightarrow> k x sent')"

text \<open>A synchronous check that may throw, followed by the rest of the call.\<close>

definition io_check :: "error + unit \<Rightarrow> 'a io \<Rightarrow> 'a io" where
  "io_check c k sent = (case c of Inl e \<Rightarrow> (Inl e, sent) | Inr _ \<Rightarrow> k sent)"

text \<open>\<open>response.ok\<close>.\<close>

definition ok :: "response \<Rightarrow> bool" where
  "ok r = (200 \<le> status r \<and> status r \<le> 299)"

text \<open>
  One request through \<open>this.http\<close> followed by \<open>.json()\<close>. The request is sent, then the
  hooks \<open>handlePermissionError\<close>, \<open>handleAuthError\<close> and \<open>handleNotOk\<close> run in this order
  on the response, then the body is parsed. The endpoint of a \<open>PermissionError\<close> is the
  pathname of the request's URL, which is the prefix followed by the path given.
\<close>

definition http :: "env \<Rightarrow> request \<Rightarrow> body io" where
  "http E rq sent =
     (let r = fetch E sent rq; sent' = sent @ [rq] in
      if status r = 405 then (Inl (PermissionError (rq_method rq) (prefix_pathname E @ rq_path rq)), sent')
      else if status r = 401 then (Inl AuthError, sent')
      else if \<not> ok r then (Inl (APIError (status r)), sent')
      else if body r = NotJSON then (Inl SyntaxError, sent')
      else (Inr (body r), sent'))"

section \<open>Query parameters (api.ts)\<close>

definition digit_char :: "nat \<Rightarrow> char" where
  "digit_char d = ''0123456789'' ! d"

function show_nat :: "nat \<Rightarrow> string" where
  "show_nat n = (if n < 10 then [digit_char n] else show_nat (n div 10) @ [digit_char (n mod 10)])"
  by pat_completeness auto
termination
  by (relation "measure id") auto

declare show_nat.simps [simp del]

text \<open>
  \<open>String(n)\<close> for a number, and in a template literal. An integer of magnitude below
  \<open>2^53\<close> is printed with all its digits.
\<close>

definition Number_toString :: "env \<Rightarrow> number \<Rightarrow> string" where
  "Number_toString E n =
     (case n of
        NaN \<Rightarrow> ''NaN''
      | PosInfinity \<Rightarrow> ''Infinity''
      | NegInfinity \<Rightarrow> ''-Infinity''
      | Finite r \<Rightarrow>
          if is_integer r \<and> \<bar>r\<bar> < 2 ^ 53
          then (if r < 0 then ''-'' @ show_nat (nat (- \<lfloor>r\<rfloor>)) else show_nat (nat \<lfloor>r\<rfloor>))
          else engine_toString E r)"

text \<open>
  The values of the objects given to \<open>toSearchParams\<close>: every caller passes a string, a
  number, a boolean or \<open>undefined\<close>.
\<close>

datatype prim = PUndefined | PNull | PBoolean bool | PNumber number | PString string

text \<open>\<open>Number(b)\<close> for a boolean.\<close>

definition Number_of_bool :: "bool \<Rightarrow> number" where
  "Number_of_bool b = Finite (if b then 1 else 0)"

text \<open>\<open>String(val)\<close>.\<close>

fun String :: "env \<Rightarrow> prim \<Rightarrow> string" where
  "String E PUndefined = ''undefined''"
| "String E PNull = ''null''"
| "String E (PBoolean b) = (if b then ''true'' else ''false'')"
| "String E (PNumber n) = Number_toString E n"
| "String E (PString s) = s"

text \<open>
  \<open>toSearchParams\<close>: the entries are filtered by \<open>val != null\<close> (false for \<open>null\<close> and
  \<open>undefined\<close> only), booleans are cast to numbers, every value is turned to a string;
  \<open>undefined\<close> (\<open>None\<close>) is returned when no entry remains.
\<close>

definition toSearchParams :: "env \<Rightarrow> (string \<times> prim) list \<Rightarrow> (string \<times> string) list option" where
  "toSearchParams E data =
     (let entries =
        map (\<lambda>(key, val). (key, String E val))
          (map (\<lambda>(key, val). (key, case val of PBoolean b \<Rightarrow> PNumber (Number_of_bool b) | _ \<Rightarrow> val))
            (filter (\<lambda>(_, val). val \<noteq> PNull \<and> val \<noteq> PUndefined) data))
      in if length entries > 0 then Some entries else None)"

section \<open>API surface (api.ts)\<close>

text \<open>\<open>xs.join(sep)\<close> on an array of strings.\<close>

fun join :: "string \<Rightarrow> string list \<Rightarrow> string" where
  "join sep [] = []"
| "join sep [x] = x"
| "join sep (x # y # ys) = x @ sep @ join sep (y # ys)"

text \<open>
  The options of \<open>getDevice\<close> and of \<open>getDevices\<close>; an absent key is \<open>None\<close>. The
  declarations are in \<open>models/api.ts\<close>; each field has the type that its use in
  \<open>getDevices\<close> requires.
\<close>

record APIGetDeviceOptions =
  includeApps :: "bool option"

record APIGetDevicesOptions =
  opt_groupIds :: "number list option"
  opt_ownerGroupIds :: "number list option"
  opt_isOwned :: "bool option"
  opt_ownerId :: "number option"
  opt_ownerName :: "string option"
  opt_isManaged :: "bool option"
  opt_modelIdentifier :: "string option"
  opt_locationId :: "number option"
  opt_isSupervised :: "bool option"
  opt_isTrashed :: "bool option"
  opt_assetTag :: "string option"
  opt_serialNumber :: "string option"
  opt_enrollmentType :: "string option"
  opt_includeApps :: "bool option"

text \<open>The options object \<open>{}\<close>.\<close>

definition no_options :: APIGetDevicesOptions where
  "no_options =
     \<lparr>opt_groupIds = None, opt_ownerGroupIds = None, opt_isOwned = None, opt_ownerId = None,
      opt_ownerName = None, opt_isManaged = None, opt_modelIdentifier = None,
      opt_locationId = None, opt_isSupervised = None, opt_isTrashed = None,
      opt_assetTag = None, opt_serialNumber = None, opt_enrollmentType = None,
      opt_includeApps = None\<rparr>"

text \<open>An optional property read into a query object: an absent one reads \<open>undefined\<close>.\<close>

definition prim_of :: "('a \<Rightarrow> prim) \<Rightarrow> 'a option \<Rightarrow> prim" where
  "prim_of f x = (case x of None \<Rightarrow> PUndefined | Some v \<Rightarrow> f v)"

text \<open>
  \<open>getDevice\<close>: \<open>includeApps\<close> is the string \<open>"true"\<close> when the option is truthy and
  \<open>undefined\<close> otherwise.
\<close>

definition getDevice_query :: "APIGetDeviceOptions \<Rightarrow> (string \<times> prim) list" where
  "getDevice_query options =
     [(''includeApps'', if includeApps options = Some True then PString ''true'' else PUndefined)]"

definition API_getDevice :: "env \<Rightarrow> string \<Rightarrow> APIGetDeviceOptions \<Rightarrow> device_detail io" where
  "API_getDevice E udid options =
     io_check (assertValidUDID udid)
       (io_bind
          (http E \<lparr>rq_method = GET, rq_path = ''devices/'' @ udid,
                   rq_searchParams = toSearchParams E (getDevice_query options),
                   rq_json = None\<rparr>)
          (\<lambda>data. case data of
                     DeviceBody device \<Rightarrow> io_return device
                   | _ \<Rightarrow> io_throw (SchemaError ''GET /devices/:udid'')))"

text \<open>
  \<open>getDevices\<close>: \<open>groupIds?.join(",")\<close> prints each number, \<open>includeApps || undefined\<close> is
  \<open>true\<close> or \<open>undefined\<close>.
\<close>

definition getDevices_query :: "env \<Rightarrow> APIGetDevicesOptions \<Rightarrow> (string \<times> prim) list" where
  "getDevices_query E options =
     [(''groups'', prim_of (\<lambda>ids. PString (join '','' (map (Number_toString E) ids))) (opt_groupIds options)),
      (''ownergroups'', prim_of (\<lambda>ids. PString (join '','' (map (Number_toString E) ids))) (opt_ownerGroupIds options)),
      (''hasOwner'', prim_of PBoolean (opt_isOwned options)),
      (''owner'', prim_of PNumber (opt_ownerId options)),
      (''name'', prim_of PString (opt_ownerName options)),
      (''managed'', prim_of PBoolean (opt_isManaged options)),
      (''model'', prim_of PString (opt_modelIdentifier options)),
      (''location'', prim_of PNumber (opt_locationId options)),
      (''supervised'', prim_of PBoolean (opt_isSupervised options)),
      (''inTrash'', prim_of PBoolean (opt_isTrashed options)),
      (''assettag'', prim_of PString (opt_assetTag options)),
      (''serialnumber'', prim_of PString (opt_serialNumber options)),
      (''enrollType'', prim_of PString (opt_enrollmentType options)),
      (''includeApps'', if opt_includeApps options = Some True then PBoolean True else PUndefined)]"

definition API_getDevices :: "env \<Rightarrow> APIGetDevicesOptions \<Rightarrow> device_data list io" where
  "API_getDevices E options =
     io_bind
       (http E \<lparr>rq_method = GET, rq_path = ''devices'',
                rq_searchParams = toSearchParams E (getDevices_query E options),
                rq_json = None\<rparr>)
       (\<lambda>data. case data of
                  DevicesBody devices \<Rightarrow> io_return devices
                | _ \<Rightarrow> io_throw (SchemaError ''GET /devices''))"

text \<open>A write: the body must satisfy the schema of the route, and is returned whole.\<close>

definition write_result :: "string \<Rightarrow> body \<Rightarrow> body io" where
  "write_result route data =
     (if data = WriteAck route then io_return data else io_throw (SchemaError route))"

definition API_setDeviceOwner :: "env \<Rightarrow> string \<Rightarrow> number \<Rightarrow> body io" where
  "API_setDeviceOwner E udid userId =
     io_check (assertValidUDID udid)
       (io_check (assertValidID userId)
          (io_bind
             (http E \<lparr>rq_method = PUT, rq_path = ''devices/'' @ udid @ ''/owner'',
                      rq_searchParams = None,
                      rq_json = JSON_stringify (JObject [(''user'', JNumber userId)])\<rparr>)
             (write_result ''PUT /devices/:udid/owner'')))"

text \<open>
  The options of \<open>moveDevice\<close> and \<open>moveDevices\<close>; the parameter itself is optional, and
  \<open>options?.onlyDevice\<close> is \<open>undefined\<close> when it or the key is absent.
\<close>

record APIMoveDeviceOptions =
  onlyDevice :: "bool option"

definition options_onlyDevice :: "APIMoveDeviceOptions option \<Rightarrow> jsval" where
  "options_onlyDevice options =
     (case options of
        None \<Rightarrow> JUndefined
      | Some opts \<Rightarrow> (case onlyDevice opts of None \<Rightarrow> JUndefined | Some b \<Rightarrow> JBoolean b))"

definition API_moveDevice :: "env \<Rightarrow> string \<Rightarrow> number \<Rightarrow> APIMoveDeviceOptions option \<Rightarrow> body io" where
  "API_moveDevice E udid location options =
     io_check (assertValidUDID udid)
       (io_check (assertValidID location)
          (let payload = JObject [(''locationId'', JNumber location),
                                  (''onlyDevice'', options_onlyDevice options)] in
           io_bind
             (http E \<lparr>rq_method = PUT, rq_path = ''devices/'' @ udid @ ''/migrate'',
                      rq_searchParams = None, rq_json = JSON_stringify payload\<rparr>)
             (write_result ''PUT /devices/:udid/migrate'')))"

definition API_moveDevices :: "env \<Rightarrow> string list \<Rightarrow> number \<Rightarrow> APIMoveDeviceOptions option \<Rightarrow> body io" where
  "API_moveDevices E devices location options =
     io_check (assertValidID location)
       (io_check (assert (length devices > 0) [])
          (io_check (assert (length devices \<le> 20) [])
             (io_check (forEach assertValidUDID devices)
                (let payload = JObject [(''locationId'', JNumber location),
                                        (''udids'', JArray (map JString devices)),
                                        (''onlyDevice'', options_onlyDevice options)] in
                 io_bind
                   (http E \<lparr>rq_method = PUT, rq_path = ''devices/migrate'',
                            rq_searchParams = None, rq_json = JSON_stringify payload\<rparr>)
                   (write_result ''PUT /devices/migrate'')))))"

text \<open>\<open>updateDevice\<close>: the data object is sent as it is.\<close>

definition API_updateDevice :: "env \<Rightarrow> string \<Rightarrow> jsval \<Rightarrow> body io" where
  "API_updateDevice E udid data =
     io_check (assertValidUDID udid)
       (io_bind
          (http E \<lparr>rq_method = POST, rq_path = ''devices/'' @ udid @ ''/details'',
                   rq_searchParams = None, rq_json = JSON_stringify data\<rparr>)
          (write_result ''POST /devices/:udid/details''))"

definition API_getApps :: "env \<Rightarrow> app_data list io" where
  "API_getApps E =
     io_bind
       (http E \<lparr>rq_method = GET, rq_path = ''apps'', rq_searchParams = None, rq_json = None\<rparr>)
       (\<lambda>data. case data of
                  AppsBody as \<Rightarrow> io_return as
                | _ \<Rightarrow> io_throw (SchemaError ''GET /apps''))"

text \<open>\<open>getApp\<close> returns the whole validated body, which is the record of the app.\<close>

definition API_getApp :: "env \<Rightarrow> number \<Rightarrow> app_data io" where
  "API_getApp E n =
     io_check (assertValidID n)
       (io_bind
          (http E \<lparr>rq_method = GET, rq_path = ''apps/'' @ Number_toString E n,
                   rq_searchParams = None, rq_json = None\<rparr>)
          (\<lambda>data. case data of
                     AppBody a \<Rightarrow> io_return a
                   | _ \<Rightarrow> io_throw (SchemaError ''GET /apps/:id'')))"

section \<open>Region coordinates (device.ts)\<close>

text \<open>
  The regular expression \<open>coords\<close>,
  \<^verbatim>\<open>/^([+-]?\d{1,3}(?:\.\d{1,15})?),([+-]?\d{1,3}(?:\.\d{1,15})?)$/\<close>,
  as a matcher built piece by piece. Each piece returns the text it consumed and the
  rest. Taking the longest run at each piece loses no match: a digit that \<open>\d{1,3}\<close> or
  \<open>\d{1,15}\<close> leaves behind matches none of \<open>.\<close>, \<open>,\<close> and the end of the string, a sign
  that \<open>[+-]?\<close> leaves behind is not a digit, and a \<open>.\<close> that the optional fraction leaves
  behind is not a \<open>,\<close>.
\<close>

definition is_digit :: "char \<Rightarrow> bool" where
  "is_digit c = (c \<in> set ''0123456789'')"

text \<open>\<open>[+-]?\<close>\<close>

definition opt_sign :: "string \<Rightarrow> string \<times> string" where
  "opt_sign s =
     (case s of
        [] \<Rightarrow> ([], s)
      | c # t \<Rightarrow> if c = CHR ''+'' \<or> c = CHR ''-'' then ([c], t) else ([], s))"

text \<open>\<open>\d{lo,hi}\<close>\<close>

definition digits :: "nat \<Rightarrow> nat \<Rightarrow> string \<Rightarrow> (string \<times> string) option" where
  "digits lo hi s =
     (let ds = takeWhile is_digit (take hi s) in
      if lo \<le> length ds then Some (ds, drop (length ds) s) else None)"

text \<open>\<open>(?:\.\d{1,15})?\<close>\<close>

definition opt_fraction :: "string \<Rightarrow> string \<times> string" where
  "opt_fraction s =
     (case s of
        [] \<Rightarrow> ([], s)
      | c # t \<Rightarrow>
          if c = CHR ''.''
          then (case digits 1 15 t of None \<Rightarrow> ([], s) | Some (fs, r) \<Rightarrow> (c # fs, r))
          else ([], s))"

text \<open>One capture group, \<open>([+-]?\d{1,3}(?:\.\d{1,15})?)\<close>.\<close>

definition coord_group :: "string \<Rightarrow> (string \<times> string) option" where
  "coord_group s =
     (let (sg, r0) = opt_sign s in
      case digits 1 3 r0 of
        None \<Rightarrow> None
      | Some (ds, r1) \<Rightarrow> (let (fr, r2) = opt_fraction r1 in Some (sg @ ds @ fr, r2)))"

text \<open>
  \<open>str.match(coords)\<close>: \<open>None\<close> is \<open>null\<close>, and \<open>Some (g1, g2)\<close> is a match whose groups
  \<open>match[1]\<close> and \<open>match[2]\<close> are \<open>g1\<close> and \<open>g2\<close>.
\<close>

definition match_coords :: "string \<Rightarrow> (string \<times> string) option" where
  "match_coords s =
     (case coord_group s of
        None \<Rightarrow> None
      | Some (g1, r) \<Rightarrow>
          (case r of
             [] \<Rightarrow> None
           | c # t \<Rightarrow>
               if c = CHR '',''
               then (case coord_group t of
                       None \<Rightarrow> None
                     | Some (g2, r') \<Rightarrow> if r' = [] then Some (g1, g2) else None)
               else None))"

definition digit_value :: "char \<Rightarrow> nat" where
  "digit_value c = of_char c - 48"

text \<open>The number that a string of decimal digits denotes.\<close>

definition decimal :: "string \<Rightarrow> nat" where
  "decimal ds = foldl (\<lambda>a c. 10 * a + digit_value c) 0 ds"

text \<open>
  \<open>parseFloat\<close> on a string that starts with a decimal literal without exponent (the
  groups of \<open>coords\<close> are such strings): an optional sign, digits, and an optional
  fraction. The result is the double nearest to the value that the literal denotes,
  which is also the number that the same literal denotes in a program. \<open>NaN\<close> when
  there is no digit. (An engine may round a literal of more than 20 significant
  digits from its first 20; a group of \<open>coords\<close> has at most 18.)
\<close>

definition parseFloat :: "string \<Rightarrow> number" where
  "parseFloat s =
     (let (sg, r0) = opt_sign s;
          ip = takeWhile is_digit r0;
          r1 = dropWhile is_digit r0;
          fp = (case r1 of [] \<Rightarrow> [] | c # t \<Rightarrow> if c = CHR ''.'' then takeWhile is_digit t else [])
      in if ip = [] \<and> fp = [] then NaN
         else nearest_double ((if sg = ''-'' then - 1 else 1) *
                              (of_nat (decimal ip) + of_nat (decimal fp) / 10 ^ length fp)))"

section \<open>Device (device.ts)\<close>

text \<open>
  A \<open>Device\<close> object is its snapshot \<open>#data\<close>; \<open>#api\<close> and \<open>#client\<close> are the shared
  environment, and the objects that \<open>#client\<close> creates are the records they wrap. A
  member function takes the snapshot and the requests sent so far, and returns its outcome, the
  snapshot afterwards and the requests sent.
\<close>

type_synonym ('s, 'a) meth = "'s \<Rightarrow> request list \<Rightarrow> (error + 'a) \<times> 's \<times> request list"

text \<open>\<open>await this.#api.f(...)\<close> as a statement: the value is dropped, \<open>#data\<close> is not touched.\<close>

definition await_void :: "'a io \<Rightarrow> ('s, unit) meth" where
  "await_void m d sent =
     (case m sent of (Inl e, sent') \<Rightarrow> (Inl e, d, sent') | (Inr _, sent') \<Rightarrow> (Inr (), d, sent'))"

record region_info =
  name :: string
  latitude :: number
  longitude :: number

definition Device_getRegion :: "device_data \<Rightarrow> error + region_info option" where
  "Device_getRegion d =
     (if region_string (region d) = [] then Inr None
      else
        (let match = (case region_coordinates (region d) of
                        None \<Rightarrow> None
                      | Some c \<Rightarrow> match_coords c) in
         case match of
           None \<Rightarrow> Inl (AssertionError ''Unexpected coordinate format'')
         | Some (g1, g2) \<Rightarrow>
             Inr (Some \<lparr>name = region_string (region d),
                        latitude = parseFloat g1,
                        longitude = parseFloat g2\<rparr>)))"

definition Device_update :: "env \<Rightarrow> (device_data, unit) meth" where
  "Device_update E d sent =
     (case API_getDevices E (no_options\<lparr>opt_serialNumber := Some (serialNumber d)\<rparr>) sent of
        (Inl e, sent') \<Rightarrow> (Inl e, d, sent')
      | (Inr devices, sent') \<Rightarrow>
          if length devices \<noteq> 1
          then (Inl (Error (''Expected 1 device, got '' @ show_nat (length devices))), d, sent')
          else (Inr (), devices ! 0, sent'))"

definition Device_setOwner :: "env \<Rightarrow> number \<Rightarrow> (device_data, unit) meth" where
  "Device_setOwner E user_id d sent =
     (case assert (\<not> strict_eq user_id (Finite 0))
             ''Using ID 0 would remove the owner. If this is intentional, use `Device.removeOwner()`'' of
        Inl e \<Rightarrow> (Inl e, d, sent)
      | Inr _ \<Rightarrow>
          if \<not> strict_eq (owner_id (owner d)) user_id
          then await_void (API_setDeviceOwner E (UDID d) user_id) d sent
          else (Inr (), d, sent))"

definition Device_removeOwner :: "env \<Rightarrow> (device_data, unit) meth" where
  "Device_removeOwner E d sent =
     (if \<not> strict_eq (owner_id (owner d)) (Finite 0)
      then await_void (API_setDeviceOwner E (UDID d) (Finite 0)) d sent
      else (Inr (), d, sent))"

definition Device_setAssetTag :: "env \<Rightarrow> string \<Rightarrow> (device_data, unit) meth" where
  "Device_setAssetTag E text d sent =
     (if assetTag d \<noteq> text
      then await_void (API_updateDevice E (UDID d) (JObject [(''assetTag'', JString text)])) d sent
      else (Inr (), d, sent))"

definition Device_setNotes :: "env \<Rightarrow> string \<Rightarrow> (device_data, unit) meth" where
  "Device_setNotes E text d sent =
     (if deviceNotes d \<noteq> text
      then await_void (API_updateDevice E (UDID d) (JObject [(''notes'', JString text)])) d sent
      else (Inr (), d, sent))"

definition Device_setLocation :: "env \<Rightarrow> number \<Rightarrow> (device_data, unit) meth" where
  "Device_setLocation E location_id d sent =
     (if \<not> strict_eq (locationId d) location_id
      then await_void (API_moveDevice E (UDID d) location_id None) d sent
      else (Inr (), d, sent))"

text \<open>
  Modelled from the spec: \<open>suppressAPIError\<close> is defined in \<open>api_error.ts\<close>, which is not
  among the sources. By the error handling design, a traversal catches the recoverable
  remote failures (\<open>AuthError\<close>, \<open>PermissionError\<close> and \<open>APIError\<close>) and substitutes the
  given value; every other error is thrown again.
\<close>

fun is_APIError_class :: "error \<Rightarrow> bool" where
  "is_APIError_class AuthError = True"
| "is_APIError_class (PermissionError m p) = True"
| "is_APIError_class (APIError st) = True"
| "is_APIError_class _ = False"

definition suppressAPIError :: "'a \<Rightarrow> error \<Rightarrow> error + 'a" where
  "suppressAPIError v e = (if is_APIError_class e then Inr v else Inl e)"

text \<open>
  \<open>Promise.all\<close> of two calls: both values when both succeed, and otherwise the error
  of the call that fails first.
\<close>

definition Promise_all :: "settle_order \<Rightarrow> error + 'a \<Rightarrow> error + 'b \<Rightarrow> error + ('a \<times> 'b)" where
  "Promise_all order r1 r2 =
     (case (r1, r2) of
        (Inr a, Inr b) \<Rightarrow> Inr (a, b)
      | (Inl e, Inr b) \<Rightarrow> Inl e
      | (Inr a, Inl e) \<Rightarrow> Inl e
      | (Inl e1, Inl e2) \<Rightarrow> (case order of FirstSettlesFirst \<Rightarrow> Inl e1 | SecondSettlesFirst \<Rightarrow> Inl e2))"

text \<open>
  \<open>getApps\<close>: both calls are started, the app list first, before either is awaited. A
  call to \<open>getDevice\<close> that fails its UDID check sends nothing and is rejected at once,
  before any response can arrive; otherwise the environment decides which response
  comes first.
\<close>

definition Device_getApps :: "env \<Rightarrow> (device_data, app_data list) meth" where
  "Device_getApps E d sent =
     (let (r1, sent1) = API_getApps E sent;
          (r2, sent2) = API_getDevice E (UDID d) \<lparr>includeApps = Some True\<rparr> sent1;
          order = (if sent2 = sent1 then SecondSettlesFirst else race E sent2)
      in case Promise_all order r1 r2 of
           Inl e \<Rightarrow> (suppressAPIError [] e, d, sent2)
         | Inr (as, myAppData) \<Rightarrow>
             (case detail_apps myAppData of
                None \<Rightarrow> (Inl (Error ''Missing 'apps' property in returned apps''), d, sent2)
              | Some mine \<Rightarrow>
                  (let myAppIdentifiers = set (map inst_identifier mine);
                       myApps = filter (\<lambda>app. app_bundleId app \<in> myAppIdentifiers) as
                   in (Inr myApps, d, sent2))))"

section \<open>App (app.ts)\<close>

definition App_update :: "env \<Rightarrow> (app_data, unit) meth" where
  "App_update E a sent =
     (case API_getApp E (app_id a) sent of
        (Inl e, sent') \<Rightarrow> (Inl e, a, sent')
      | (Inr data, sent') \<Rightarrow> (Inr (), data, sent'))"

section \<open>The coordinate format as the specification words it\<close>

text \<open>
  The specification gives the format as
  \<^verbatim>\<open>^([+-]?\d{1,3}(\.\d{1,15})?),([+-]?\d{1,3}(\.\d{1,15})?)$\<close>.
  Read as a description of strings: a number is an optional sign, one to three digits
  and optionally a dot with one to fifteen digits, and a coordinate string is two
  numbers with a comma between them.
\<close>

definition digit_string :: "nat \<Rightarrow> nat \<Rightarrow> string \<Rightarrow> bool" where
  "digit_string lo hi ds = (lo \<le> length ds \<and> length ds \<le> hi \<and> list_all is_digit ds)"

definition spec_number :: "string \<Rightarrow> bool" where
  "spec_number s =
     (\<exists>sg ds fr. s = sg @ ds @ fr
        \<and> (sg = [] \<or> sg = ''+'' \<or> sg = ''-'')
        \<and> digit_string 1 3 ds
        \<and> (fr = [] \<or> (\<exists>fs. fr = CHR ''.'' # fs \<and> digit_string 1 15 fs)))"

definition spec_coords :: "string \<Rightarrow> bool" where
  "spec_coords s = (\<exists>a b. s = a @ '','' @ b \<and> spec_number a \<and> spec_number b)"

section \<open>Sample environments and records\<close>

text \<open>A remote service whose answer depends on the path of the request alone.\<close>

definition path_env :: "(string \<Rightarrow> response) \<Rightarrow> env" where
  "path_env f =
     \<lparr>fetch = (\<lambda>sent rq. f (rq_path rq)),
      race = (\<lambda>sent. FirstSettlesFirst),
      prefix_pathname = ''/'',
      engine_toString = (\<lambda>r. [])\<rparr>"

text \<open>A remote service that answers every request with the same response.\<close>

definition const_env :: "response \<Rightarrow> env" where
  "const_env r = path_env (\<lambda>p. r)"

definition sample_device :: device_data where
  "sample_device =
     \<lparr>UDID = ''c0ffee'', locationId = Finite 0, serialNumber = ''F9FXH0AAJF8J'',
      deviceName = ''iPad'', assetTag = ''A-1'',
      owner = \<lparr>owner_id = Finite 7, owner_name = ''Ada''\<rparr>,
      groups = [],
      region = \<lparr>region_string = ''Oslo'', region_coordinates = Some ''12.34,-56.78''\<rparr>,
      apps = None, deviceNotes = []\<rparr>"

definition sample_app :: app_data where
  "sample_app = \<lparr>app_id = Finite 3, app_bundleId = ''com.example.app'', app_name = ''Example'',
                  app_locationId = Finite 0\<rparr>"

definition migrate_ok :: response where
  "migrate_ok = \<lparr>status = 200, body = WriteAck ''PUT /devices/migrate''\<rparr>"

text \<open>
  A service that answers the serial-number lookup with one device whose UDID differs
  from that of \<open>sample_device\<close>, one that answers it with no device, and one that
  answers \<open>GET /apps/:id\<close> with an app whose ID differs from that of \<open>sample_app\<close>.
\<close>

definition other_udid_env :: env where
  "other_udid_env =
     const_env \<lparr>status = 200, body = DevicesBody [sample_device\<lparr>UDID := ''deadbeef''\<rparr>]\<rparr>"

definition no_device_env :: env where
  "no_device_env = const_env \<lparr>status = 200, body = DevicesBody []\<rparr>"

definition other_id_env :: env where
  "other_id_env = const_env \<lparr>status = 200, body = AppBody (sample_app\<lparr>app_id := Finite 4\<rparr>)\<rparr>"

text \<open>
  A service whose app list is down (status 500) while the device detail validates
  without \<open>apps\<close>, and one whose app list is up as well.
\<close>

definition detail_without_apps :: response where
  "detail_without_apps =
     \<lparr>status = 200, body = DeviceBody \<lparr>detail_UDID = ''c0ffee'', detail_apps = None\<rparr>\<rparr>"

definition apps_down_env :: env where
  "apps_down_env =
     path_env (\<lambda>p. if p = ''apps'' then \<lparr>status = 500, body = Unrecognised\<rparr>
                    else detail_without_apps)"

definition apps_up_env :: env where
  "apps_up_env =
     path_env (\<lambda>p. if p = ''apps'' then \<lparr>status = 200, body = AppsBody [sample_app]\<rparr>
                    else detail_without_apps)"

definition owner_ok :: response where
  "owner_ok = \<lparr>status = 200, body = WriteAck ''PUT /devices/:udid/owner''\<rparr>"

text \<open>
  Services that answer with the same device, or the same app, with another attribute
  changed.
\<close>

definition refreshed_device_env :: env where
  "refreshed_device_env =
     const_env \<lparr>status = 200, body = DevicesBody [sample_device\<lparr>assetTag := ''B-2''\<rparr>]\<rparr>"

definition refreshed_app_env :: env where
  "refreshed_app_env =
     const_env \<lparr>status = 200, body = AppBody (sample_app\<lparr>app_name := ''Renamed''\<rparr>)\<rparr>"

text \<open>The sample device with a named region whose coordinates are absent, and unowned.\<close>

definition region_without_coordinates :: device_data where
  "region_without_coordinates =
     sample_device\<lparr>region := \<lparr>region_string = ''Oslo'', region_coordinates = None\<rparr>\<rparr>"

definition unowned_device :: device_data where
  "unowned_device = sample_device\<lparr>owner := \<lparr>owner_id = Finite 0, owner_name = []\<rparr>\<rparr>"

section \<open>Validation and transport lemmas\<close>

lemma forEach_assertValidUDID_ok:
  "list_all isValidUDID ds \<Longrightarrow> forEach assertValidUDID ds = Inr ()"
  by (induction ds) (simp_all add: assertValidUDID_def assert_def)

lemma forEach_assertValidUDID_fail:
  "\<not> list_all isValidUDID ds \<Longrightarrow>
     \<exists>u. forEach assertValidUDID ds = Inl (AssertionError (''Invalid UDID: '' @ u))"
  by (induction ds) (auto simp add: assertValidUDID_def assert_def)

lemma stringify_JString:
  "(\<lambda>x. case JSON_stringify x of None \<Rightarrow> Null | Some j \<Rightarrow> j) \<circ> JString = Str"
  by (rule ext) simp

lemma http_sent: "snd (http E rq sent) = sent @ [rq]"
  by (simp add: http_def Let_def)

lemma write_result_sent: "snd (write_result route data sent) = sent"
  by (simp add: write_result_def io_return_def io_throw_def)

lemma write_call_sent: "snd (io_bind (http E rq) (write_result route) sent) = sent @ [rq]"
  using http_sent [of E rq sent] write_result_sent [of route _ "sent @ [rq]"]
  by (auto simp: io_bind_def split: prod.splits sum.splits)

lemma write_call_ack:
  assumes "status (fetch E sent rq) = 200" "body (fetch E sent rq) = WriteAck route"
  shows "fst (io_bind (http E rq) (write_result route) sent) = Inr (WriteAck route)"
  using assms by (simp add: io_bind_def http_def Let_def ok_def write_result_def io_return_def)

lemma moveDevices_rejects:
  assumes "devices = [] \<or> 20 < length devices \<or> \<not> isValidID location
             \<or> (\<exists>u\<in>set devices. \<not> isValidUDID u)"
  shows "\<exists>msg. API_moveDevices E devices location options sent = (Inl (AssertionError msg), sent)"
proof -
  have "\<not> isValidID location \<or> devices = [] \<or> 20 < length devices
          \<or> \<not> list_all isValidUDID devices"
    using assms by (auto simp: list_all_iff)
  then show ?thesis
    using forEach_assertValidUDID_fail [of devices] forEach_assertValidUDID_ok [of devices]
    by (auto simp: API_moveDevices_def io_check_def assertValidID_def assert_def)
qed

lemma moveDevices_proceeds:
  assumes "1 \<le> length devices" "length devices \<le> 20" "\<forall>u\<in>set devices. isValidUDID u"
    "isValidID location"
  shows "API_moveDevices E devices location options sent =
         io_bind
           (http E \<lparr>rq_method = PUT, rq_path = ''devices/migrate'', rq_searchParams = None,
                    rq_json = JSON_stringify
                      (JObject [(''locationId'', JNumber location),
                                (''udids'', JArray (map JString devices)),
                                (''onlyDevice'', options_onlyDevice options)])\<rparr>)
           (write_result ''PUT /devices/migrate'') sent"
proof -
  have "list_all isValidUDID devices" using assms by (simp add: list_all_iff)
  then have "forEach assertValidUDID devices = Inr ()" by (rule forEach_assertValidUDID_ok)
  then show ?thesis using assms
    by (cases devices)
       (simp_all add: API_moveDevices_def io_check_def assertValidID_def assert_def)
qed

lemma isValidID_zero: "isValidID (Finite 0)"
  by (simp add: isValidID_def is_integer_def)

lemma isValidUDID_dash: "isValidUDID ''-''"
  by (simp add: isValidUDID_def udid_char_def)

lemma isValidUDID_c0ffee: "isValidUDID ''c0ffee''"
  by (simp add: isValidUDID_def udid_char_def)

lemmas io_defs = io_bind_def io_check_def io_return_def io_throw_def http_def ok_def Let_def
  write_result_def await_void_def assert_def

lemmas env_defs = const_env_def path_env_def

lemma isValidID_3: "isValidID (Finite 3)"
  by (simp add: isValidID_def is_integer_def)

lemma not_isValidUDID_xyz: "\<not> isValidUDID ''xyz''"
  by (simp add: isValidUDID_def udid_char_def)

lemma strict_eq_zero: "strict_eq n (Finite 0) \<longleftrightarrow> n = Finite 0"
  by (auto simp: strict_eq_def)

lemma await_void_sent: "snd (snd (await_void m d sent)) = snd (m sent)"
  by (auto simp: await_void_def split: prod.splits sum.splits)

lemma await_void_data: "fst (snd (await_void m d sent)) = d"
  by (auto simp: await_void_def split: prod.splits sum.splits)

lemma moveDevices_single:
  assumes "isValidUDID x"
  shows "snd (API_moveDevices E [x] (Finite 0) options sent) =
         sent @ [\<lparr>rq_method = PUT, rq_path = ''devices/migrate'', rq_searchParams = None,
                  rq_json = Some (Obj ([(''locationId'', Num 0), (''udids'', Arr [Str x])]
                     @ (case JSON_stringify (options_onlyDevice options) of
                          None \<Rightarrow> [] | Some j \<Rightarrow> [(''onlyDevice'', j)])))\<rparr>]"
proof -
  have "API_moveDevices E [x] (Finite 0) options sent =
         io_bind
           (http E \<lparr>rq_method = PUT, rq_path = ''devices/migrate'', rq_searchParams = None,
                    rq_json = JSON_stringify
                      (JObject [(''locationId'', JNumber (Finite 0)),
                                (''udids'', JArray (map JString [x])),
                                (''onlyDevice'', options_onlyDevice options)])\<rparr>)
           (write_result ''PUT /devices/migrate'') sent"
    using assms isValidID_zero by (intro moveDevices_proceeds) simp_all
  then show ?thesis
    using write_call_sent by simp
qed

lemma setDeviceOwner_sent:
  "isValidUDID udid \<Longrightarrow> isValidID n \<Longrightarrow>
   snd (API_setDeviceOwner E udid n sent) =
     sent @ [\<lparr>rq_method = PUT, rq_path = ''devices/'' @ udid @ ''/owner'', rq_searchParams = None,
              rq_json = JSON_stringify (JObject [(''user'', JNumber n)])\<rparr>]"
  using write_call_sent
  by (simp add: API_setDeviceOwner_def io_check_def assertValidUDID_def assertValidID_def assert_def)

lemma updateDevice_sent:
  "isValidUDID udid \<Longrightarrow>
   snd (API_updateDevice E udid data sent) =
     sent @ [\<lparr>rq_method = POST, rq_path = ''devices/'' @ udid @ ''/details'',
              rq_searchParams = None, rq_json = JSON_stringify data\<rparr>]"
  using write_call_sent
  by (simp add: API_updateDevice_def io_check_def assertValidUDID_def assert_def)

lemma moveDevice_sent:
  "isValidUDID udid \<Longrightarrow> isValidID n \<Longrightarrow>
   snd (API_moveDevice E udid n options sent) =
     sent @ [\<lparr>rq_method = PUT, rq_path = ''devices/'' @ udid @ ''/migrate'', rq_searchParams = None,
              rq_json = JSON_stringify (JObject [(''locationId'', JNumber n),
                                                (''onlyDevice'', options_onlyDevice options)])\<rparr>]"
  using write_call_sent
  by (simp add: API_moveDevice_def io_check_def assertValidUDID_def assertValidID_def assert_def)

section \<open>Bulk move of devices\<close>

text \<open>
  C1. \<open>moveDevices\<close> validates before it sends. When the list of UDIDs is empty or longer
  than 20, or the location is not a valid ID, or some element is not a valid UDID, the
  call fails with an assertion error and the list of requests sent is unchanged. When
  the list has 1 to 20 elements, all valid, and the location is valid, exactly one
  request is sent, a \<open>PUT\<close> of \<open>devices/migrate\<close> whose JSON body has exactly the given
  UDIDs, in order, under \<open>udids\<close>; and when the service acknowledges it, the call
  succeeds.
\<close>

theorem moveDevices_validates_before_sending:
  "(devices = [] \<or> 20 < length devices \<or> \<not> isValidID location
      \<or> (\<exists>u\<in>set devices. \<not> isValidUDID u)
    \<longrightarrow> (\<exists>msg. API_moveDevices E devices location options sent = (Inl (AssertionError msg), sent)))
   \<and> (1 \<le> length devices \<and> length devices \<le> 20 \<and> (\<forall>u\<in>set devices. isValidUDID u)
        \<and> isValidID location
    \<longrightarrow> (\<exists>rq b. snd (API_moveDevices E devices location options sent) = sent @ [rq]
          \<and> rq_method rq = PUT \<and> rq_path rq = ''devices/migrate''
          \<and> rq_json rq = Some b \<and> member ''udids'' b = Some (Arr (map Str devices))
          \<and> (status (fetch E sent rq) = 200
               \<and> body (fetch E sent rq) = WriteAck ''PUT /devices/migrate''
               \<longrightarrow> fst (API_moveDevices E devices location options sent)
                     = Inr (WriteAck ''PUT /devices/migrate''))))"
proof (intro conjI impI)
  assume "devices = [] \<or> 20 < length devices \<or> \<not> isValidID location
            \<or> (\<exists>u\<in>set devices. \<not> isValidUDID u)"
  then show "\<exists>msg. API_moveDevices E devices location options sent = (Inl (AssertionError msg), sent)"
    by (rule moveDevices_rejects)
next
  assume h: "1 \<le> length devices \<and> length devices \<le> 20 \<and> (\<forall>u\<in>set devices. isValidUDID u)
               \<and> isValidID location"
  let ?b = "Obj ((''locationId'', case location of Finite r \<Rightarrow> Num r | _ \<Rightarrow> Null)
                 # (''udids'', Arr (map Str devices))
                 # (case JSON_stringify (options_onlyDevice options) of
                      None \<Rightarrow> [] | Some j \<Rightarrow> [(''onlyDevice'', j)]))"
  let ?rq = "\<lparr>rq_method = PUT, rq_path = ''devices/migrate'', rq_searchParams = None,
              rq_json = Some ?b\<rparr>"
  have eq: "API_moveDevices E devices location options sent =
            io_bind (http E ?rq) (write_result ''PUT /devices/migrate'') sent"
    using h moveDevices_proceeds [of devices location E options sent]
    by (simp add: stringify_JString)
  have 1: "snd (API_moveDevices E devices location options sent) = sent @ [?rq]"
    unfolding eq by (rule write_call_sent)
  have 2: "member ''udids'' ?b = Some (Arr (map Str devices))"
    by simp
  have 3: "status (fetch E sent ?rq) = 200
             \<and> body (fetch E sent ?rq) = WriteAck ''PUT /devices/migrate''
             \<longrightarrow> fst (API_moveDevices E devices location options sent)
                   = Inr (WriteAck ''PUT /devices/migrate'')"
    unfolding eq by (auto intro: write_call_ack)
  show "\<exists>rq b. snd (API_moveDevices E devices location options sent) = sent @ [rq]
          \<and> rq_method rq = PUT \<and> rq_path rq = ''devices/migrate''
          \<and> rq_json rq = Some b \<and> member ''udids'' b = Some (Arr (map Str devices))
          \<and> (status (fetch E sent rq) = 200
               \<and> body (fetch E sent rq) = WriteAck ''PUT /devices/migrate''
               \<longrightarrow> fst (API_moveDevices E devices location options sent)
                     = Inr (WriteAck ''PUT /devices/migrate''))"
    using 1 2 3 by (intro exI [of _ ?rq] exI [of _ ?b]) simp
qed

theorem moveDevices_validates_before_sending_witness:
  "(\<exists>msg. API_moveDevices (const_env migrate_ok) [] (Finite 0) None []
            = (Inl (AssertionError msg), []))
   \<and> (\<exists>rq b. API_moveDevices (const_env migrate_ok) [''-'', ''c0ffee''] (Finite 0) None []
                = (Inr (WriteAck ''PUT /devices/migrate''), [rq])
          \<and> rq_method rq = PUT \<and> rq_path rq = ''devices/migrate''
          \<and> rq_json rq = Some b \<and> member ''udids'' b = Some (Arr [Str ''-'', Str ''c0ffee'']))"
proof -
  have 1: "\<exists>msg. API_moveDevices (const_env migrate_ok) [] (Finite 0) None []
            = (Inl (AssertionError msg), [])"
    using moveDevices_validates_before_sending [of "[]" "Finite 0" "const_env migrate_ok" None "[]"]
    by simp
  have any: "status (fetch (const_env migrate_ok) [] rq) = 200"
    "body (fetch (const_env migrate_ok) [] rq) = WriteAck ''PUT /devices/migrate''" for rq
    by (simp_all add: env_defs migrate_ok_def)
  have 2: "\<exists>rq b. API_moveDevices (const_env migrate_ok) [''-'', ''c0ffee''] (Finite 0) None []
                = (Inr (WriteAck ''PUT /devices/migrate''), [rq])
          \<and> rq_method rq = PUT \<and> rq_path rq = ''devices/migrate''
          \<and> rq_json rq = Some b \<and> member ''udids'' b = Some (Arr [Str ''-'', Str ''c0ffee''])"
    using moveDevices_validates_before_sending
        [of "[''-'', ''c0ffee'']" "Finite 0" "const_env migrate_ok" None "[]"]
      isValidID_zero isValidUDID_dash isValidUDID_c0ffee any
    by (auto simp: prod_eq_iff)
  show ?thesis using 1 2 by (rule conjI)
qed

text \<open>
  C7, as amended. For every valid UDID \<open>x\<close> (the test uses \<open>"-"\<close>): \<open>moveDevices([x], 0)\<close>
  with the options omitted sends one \<open>PUT\<close> of \<open>devices/migrate\<close> whose JSON body has
  \<open>locationId\<close> 0 and \<open>udids\<close> \<open>[x]\<close> and no key \<open>onlyDevice\<close>; with the options
  \<open>{onlyDevice: true}\<close> the body has the same two members and \<open>onlyDevice\<close> true.
\<close>

theorem moveDevices_payload:
  "isValidUDID x \<Longrightarrow>
     (\<exists>b. snd (API_moveDevices E [x] (Finite 0) None sent)
             = sent @ [\<lparr>rq_method = PUT, rq_path = ''devices/migrate'', rq_searchParams = None,
                        rq_json = Some b\<rparr>]
          \<and> b = Obj [(''locationId'', Num 0), (''udids'', Arr [Str x])]
          \<and> \<not> has_key ''onlyDevice'' b)
   \<and> (\<exists>b. snd (API_moveDevices E [x] (Finite 0) (Some \<lparr>onlyDevice = Some True\<rparr>) sent)
             = sent @ [\<lparr>rq_method = PUT, rq_path = ''devices/migrate'', rq_searchParams = None,
                        rq_json = Some b\<rparr>]
          \<and> b = Obj [(''locationId'', Num 0), (''udids'', Arr [Str x]),
                      (''onlyDevice'', Bool True)]
          \<and> member ''onlyDevice'' b = Some (Bool True))"
  using moveDevices_single [of x E None sent]
    moveDevices_single [of x E "Some \<lparr>onlyDevice = Some True\<rparr>" sent]
  by (simp add: options_onlyDevice_def)

theorem moveDevices_payload_witness:
  "(\<exists>b. snd (API_moveDevices (const_env migrate_ok) [''-''] (Finite 0) None [])
             = [] @ [\<lparr>rq_method = PUT, rq_path = ''devices/migrate'', rq_searchParams = None,
                      rq_json = Some b\<rparr>]
          \<and> b = Obj [(''locationId'', Num 0), (''udids'', Arr [Str ''-''])]
          \<and> \<not> has_key ''onlyDevice'' b)
   \<and> (\<exists>b. snd (API_moveDevices (const_env migrate_ok) [''-''] (Finite 0)
                   (Some \<lparr>onlyDevice = Some True\<rparr>) [])
             = [] @ [\<lparr>rq_method = PUT, rq_path = ''devices/migrate'', rq_searchParams = None,
                      rq_json = Some b\<rparr>]
          \<and> b = Obj [(''locationId'', Num 0), (''udids'', Arr [Str ''-'']),
                      (''onlyDevice'', Bool True)]
          \<and> member ''onlyDevice'' b = Some (Bool True))"
  using moveDevices_payload [of "''-''" "const_env migrate_ok" "[]"] isValidUDID_dash
  by simp

text \<open>
  C7 as stated fails: the string \<open>"X"\<close> is not a valid UDID, so \<open>moveDevices(["X"], 0)\<close>
  fails its UDID check and sends nothing.
\<close>

theorem moveDevices_X_counterexample:
  "API_moveDevices (const_env migrate_ok) [''X''] (Finite 0) None []
     = (Inl (AssertionError ''Invalid UDID: X''), [])"
  by (simp add: API_moveDevices_def io_check_def assertValidID_def assert_def isValidID_def
      is_integer_def assertValidUDID_def isValidUDID_def udid_char_def)

section \<open>Query parameter lemmas\<close>

lemma toSearchParams_None:
  "toSearchParams E data = None \<longleftrightarrow> (\<forall>(k, v)\<in>set data. v = PNull \<or> v = PUndefined)"
  by (auto simp: toSearchParams_def Let_def filter_empty_conv)

lemma toSearchParams_keys:
  "toSearchParams E data = Some ps \<Longrightarrow>
     map fst ps = map fst (filter (\<lambda>(k, v). v \<noteq> PNull \<and> v \<noteq> PUndefined) data)"
  by (auto simp: toSearchParams_def Let_def split: if_splits)

lemma Number_toString_bool:
  "Number_toString E (Number_of_bool b) = (if b then ''1'' else ''0'')"
  by (simp add: Number_toString_def Number_of_bool_def is_integer_def show_nat.simps digit_char_def)

lemma toSearchParams_boolean:
  assumes "(k, PBoolean b) \<in> set data"
  shows "\<exists>ps. toSearchParams E data = Some ps \<and> (k, if b then ''1'' else ''0'') \<in> set ps"
proof -
  let ?kept = "filter (\<lambda>(k, v). v \<noteq> PNull \<and> v \<noteq> PUndefined) data"
  let ?cast = "\<lambda>(key, val). (key, case val of PBoolean b \<Rightarrow> PNumber (Number_of_bool b) | _ \<Rightarrow> val)"
  let ?str = "\<lambda>(key, val). (key, String E val)"
  have mem: "(k, PBoolean b) \<in> set ?kept" using assms by simp
  then have ne: "?kept \<noteq> []" by (metis empty_iff empty_set)
  have eq: "toSearchParams E data = Some (map ?str (map ?cast ?kept))"
    using ne by (simp add: toSearchParams_def)
  have "?str (?cast (k, PBoolean b)) \<in> set (map ?str (map ?cast ?kept))"
    using mem by (simp only: set_map image_image) (rule imageI)
  then have "(k, if b then ''1'' else ''0'') \<in> set (map ?str (map ?cast ?kept))"
    using Number_toString_bool [of E b] by simp
  then show ?thesis using eq by blast
qed

lemma getDevice_request:
  assumes "isValidUDID udid"
  shows "snd (API_getDevice E udid options sent) =
     sent @ [\<lparr>rq_method = GET, rq_path = ''devices/'' @ udid,
              rq_searchParams = (if includeApps options = Some True
                                 then Some [(''includeApps'', ''true'')] else None),
              rq_json = None\<rparr>]"
  using assms
  by (auto simp: API_getDevice_def io_check_def assertValidUDID_def assert_def io_bind_def
      http_def Let_def getDevice_query_def toSearchParams_def io_return_def io_throw_def
      split: body.splits)

lemma getDevices_request:
  "snd (API_getDevices E options sent) =
     sent @ [\<lparr>rq_method = GET, rq_path = ''devices'',
              rq_searchParams = toSearchParams E (getDevices_query E options),
              rq_json = None\<rparr>]"
  by (auto simp: API_getDevices_def io_bind_def http_def Let_def io_return_def io_throw_def
      split: body.splits)

lemma getDevices_includeApps:
  "toSearchParams E (getDevices_query E (no_options\<lparr>opt_includeApps := Some True\<rparr>))
     = Some [(''includeApps'', ''1'')]"
  using Number_toString_bool [of E True]
  by (simp add: toSearchParams_def getDevices_query_def no_options_def prim_of_def)

lemma getDevices_no_options:
  "toSearchParams E (getDevices_query E no_options) = None"
  by (simp add: toSearchParams_def getDevices_query_def no_options_def prim_of_def)

lemma getDevices_includeApps_false:
  "toSearchParams E (getDevices_query E (no_options\<lparr>opt_includeApps := Some False\<rparr>)) = None"
  by (simp add: toSearchParams_def getDevices_query_def no_options_def prim_of_def)

section \<open>Query parameters\<close>

text \<open>
  C2, as amended. In every object given to \<open>toSearchParams\<close>, a boolean value is sent as
  \<open>"1"\<close> or \<open>"0"\<close>; the keys sent are the keys whose value is neither \<open>null\<close> nor
  \<open>undefined\<close>, in order; and when every value is \<open>null\<close> or \<open>undefined\<close> the result is
  \<open>undefined\<close>, so that no query string is attached (as for \<open>getDevices\<close> without
  options). \<open>GET /devices/:udid\<close> sends \<open>includeApps\<close> as the string \<open>"true"\<close> when the
  option is true and sends no query at all when it is false or absent, while
  \<open>GET /devices\<close> sends a true \<open>includeApps\<close> as \<open>"1"\<close> and leaves a false one out.
\<close>

theorem query_parameters_serialise:
  "((k, PBoolean b) \<in> set data
      \<longrightarrow> (\<exists>ps. toSearchParams E data = Some ps \<and> (k, if b then ''1'' else ''0'') \<in> set ps))
   \<and> (toSearchParams E data = Some qs
      \<longrightarrow> map fst qs = map fst (filter (\<lambda>(k, v). v \<noteq> PNull \<and> v \<noteq> PUndefined) data))
   \<and> (toSearchParams E data = None \<longleftrightarrow> (\<forall>(k, v)\<in>set data. v = PNull \<or> v = PUndefined))
   \<and> (isValidUDID udid
      \<longrightarrow> snd (API_getDevice E udid options sent) =
            sent @ [\<lparr>rq_method = GET, rq_path = ''devices/'' @ udid,
                     rq_searchParams = (if includeApps options = Some True
                                        then Some [(''includeApps'', ''true'')] else None),
                     rq_json = None\<rparr>])
   \<and> snd (API_getDevices E (no_options\<lparr>opt_includeApps := Some True\<rparr>) sent) =
         sent @ [\<lparr>rq_method = GET, rq_path = ''devices'',
                  rq_searchParams = Some [(''includeApps'', ''1'')], rq_json = None\<rparr>]
   \<and> snd (API_getDevices E (no_options\<lparr>opt_includeApps := Some False\<rparr>) sent) =
         sent @ [\<lparr>rq_method = GET, rq_path = ''devices'', rq_searchParams = None,
                  rq_json = None\<rparr>]
   \<and> snd (API_getDevices E no_options sent) =
         sent @ [\<lparr>rq_method = GET, rq_path = ''devices'', rq_searchParams = None,
                  rq_json = None\<rparr>]"
  using toSearchParams_boolean [of k b data E] toSearchParams_keys [of E data qs]
    toSearchParams_None [of E data] getDevice_request [of udid E options sent]
    getDevices_request [of E _ sent] getDevices_includeApps [of E] getDevices_no_options [of E]
    getDevices_includeApps_false [of E]
  by simp

theorem query_parameters_serialise_witness:
  "(\<exists>ps. toSearchParams (const_env migrate_ok)
            [(''hasOwner'', PBoolean True), (''name'', PUndefined), (''inTrash'', PBoolean False)]
            = Some ps \<and> (''inTrash'', ''0'') \<in> set ps)
   \<and> toSearchParams (const_env migrate_ok)
        [(''hasOwner'', PBoolean True), (''name'', PUndefined), (''inTrash'', PBoolean False)]
        = Some [(''hasOwner'', ''1''), (''inTrash'', ''0'')]
   \<and> toSearchParams (const_env migrate_ok) [(''name'', PUndefined), (''model'', PNull)] = None
   \<and> snd (API_getDevice (const_env migrate_ok) ''c0ffee'' \<lparr>includeApps = Some True\<rparr> []) =
         [\<lparr>rq_method = GET, rq_path = ''devices/c0ffee'',
           rq_searchParams = Some [(''includeApps'', ''true'')], rq_json = None\<rparr>]"
  using query_parameters_serialise
      [of "''inTrash''" False
          "[(''hasOwner'', PBoolean True), (''name'', PUndefined), (''inTrash'', PBoolean False)]"
          "const_env migrate_ok" "[(''hasOwner'', ''1''), (''inTrash'', ''0'')]"
          "''c0ffee''" "\<lparr>includeApps = Some True\<rparr>" "[]"]
    query_parameters_serialise
      [of "''name''" False "[(''name'', PUndefined), (''model'', PNull)]"
          "const_env migrate_ok" "[]" "''c0ffee''" "\<lparr>includeApps = Some True\<rparr>" "[]"]
    isValidUDID_c0ffee Number_toString_bool [of "const_env migrate_ok"]
  by (simp add: toSearchParams_def)

text \<open>
  C2 as stated fails: with \<open>includeApps: false\<close>, \<open>GET /devices/:udid\<close> carries no query
  at all, and not \<open>includeApps=false\<close>.
\<close>

theorem getDevice_includeApps_false_counterexample:
  "snd (API_getDevice (const_env migrate_ok) ''c0ffee'' \<lparr>includeApps = Some False\<rparr> []) =
     [\<lparr>rq_method = GET, rq_path = ''devices/c0ffee'', rq_searchParams = None, rq_json = None\<rparr>]"
  using isValidUDID_c0ffee
  by (simp add: API_getDevice_def io_defs env_defs assertValidUDID_def getDevice_query_def
      toSearchParams_def migrate_ok_def)


section \<open>Rounding to a double\<close>

lemma binade_bounds:
  "0 < x \<Longrightarrow> 2 powi binade x \<le> x \<and> x < 2 powi (binade x + 1)"
proof (induction x rule: binade.induct)
  case (1 x)
  have up: "(2::rat) powi (k + 1) = 2 * 2 powi k" for k
    by (simp add: power_int_add_1')
  have down: "(2::rat) powi (k - 1) = 2 powi k / 2" for k
    by (simp add: power_int_diff)
  show ?case
  proof (cases "x < 1")
    case True
    have b: "binade x = binade (2 * x) - 1"
      using True "1.prems" by (subst binade.simps) simp
    have "2 powi binade (2 * x) \<le> 2 * x \<and> 2 * x < 2 powi (binade (2 * x) + 1)"
      using "1.IH"(1) True "1.prems" by simp
    then show ?thesis unfolding b by (simp add: up down)
  next
    case False
    show ?thesis
    proof (cases "2 \<le> x")
      case True
      have b: "binade x = binade (x / 2) + 1"
        using True False "1.prems" by (subst binade.simps) simp
      have "2 powi binade (x / 2) \<le> x / 2 \<and> x / 2 < 2 powi (binade (x / 2) + 1)"
        using "1.IH"(2) True False "1.prems" by simp
      then show ?thesis unfolding b up by simp
    next
      case F2: False
      have b: "binade x = 0"
        using F2 False "1.prems" by (subst binade.simps) simp
      show ?thesis unfolding b using F2 False by simp
    qed
  qed
qed

lemma round_half_even_near: "\<bar>of_int (round_half_even x) - x\<bar> \<le> 1 / 2"
proof -
  have fl: "of_int \<lfloor>x\<rfloor> \<le> x" "x < of_int \<lfloor>x\<rfloor> + 1" by linarith+
  define f where "f = \<lfloor>x\<rfloor>"
  define d where "d = x - of_int f"
  have d: "0 \<le> d" "d < 1" using fl by (simp_all add: d_def f_def)
  have r: "round_half_even x = (if d < 1 / 2 then f else if 1 / 2 < d then f + 1 else if even f then f else f + 1)"
    by (simp add: round_half_even_def Let_def d_def f_def)
  have c: "(round_half_even x = f \<and> d \<le> 1 / 2) \<or> (round_half_even x = f + 1 \<and> 1 / 2 \<le> d)"
    unfolding r by auto
  then show ?thesis
  proof
    assume h: "round_half_even x = f \<and> d \<le> 1 / 2"
    then have "of_int (round_half_even x) - x = - d" by (simp add: d_def)
    then show ?thesis using d h by simp
  next
    assume h: "round_half_even x = f + 1 \<and> 1 / 2 \<le> d"
    then have "of_int (round_half_even x) - x = 1 - d" by (simp add: d_def)
    then show ?thesis using d h by simp
  qed
qed

lemma nearest_double_not_NaN: "nearest_double x \<noteq> NaN"
  by (simp add: nearest_double_def Let_def)

lemma nearest_double_near:
  assumes "nearest_double x = Finite v"
  shows "\<exists>m. v = of_int m * 2 powi (max (binade \<bar>x\<bar>) (- 1022) - 52)
           \<and> \<bar>v - x\<bar> \<le> 2 powi (max (binade \<bar>x\<bar>) (- 1022) - 52) / 2"
proof -
  define q :: rat where "q = 2 powi (max (binade \<bar>x\<bar>) (- 1022) - 52)"
  define m where "m = round_half_even (\<bar>x\<bar> / q)"
  have q: "0 < q" by (simp add: q_def)
  have v: "v = (if x < 0 then - (of_int m * q) else of_int m * q)"
    using assms unfolding nearest_double_def Let_def q_def [symmetric] m_def [symmetric]
    by (simp split: if_splits)
  have "\<bar>of_int m - \<bar>x\<bar> / q\<bar> \<le> 1 / 2" unfolding m_def by (rule round_half_even_near)
  then have "\<bar>of_int m - \<bar>x\<bar> / q\<bar> * q \<le> 1 / 2 * q"
    using q by (intro mult_right_mono) simp_all
  moreover have "of_int m * q - \<bar>x\<bar> = (of_int m - \<bar>x\<bar> / q) * q"
    using q by (simp add: left_diff_distrib)
  then have "\<bar>of_int m * q - \<bar>x\<bar>\<bar> = \<bar>of_int m - \<bar>x\<bar> / q\<bar> * q"
    using q by (simp only: abs_mult abs_of_pos)
  ultimately have near: "\<bar>of_int m * q - \<bar>x\<bar>\<bar> \<le> q / 2" by simp
  show ?thesis
  proof (cases "x < 0")
    case True
    then have vn: "v = - (of_int m * q)" using v by simp
    then have "v = of_int (- m) * q" by simp
    moreover have "\<bar>v - x\<bar> \<le> q / 2" using near True vn by linarith
    ultimately show ?thesis unfolding q_def by blast
  next
    case False
    then have vp: "v = of_int m * q" using v by simp
    moreover have "\<bar>v - x\<bar> \<le> q / 2" using near False vp by linarith
    ultimately show ?thesis unfolding q_def by blast
  qed
qed

section \<open>The matcher accepts exactly the specified format\<close>

lemma takeWhile_stop: "xs = [] \<or> \<not> P (hd xs) \<Longrightarrow> takeWhile P (take k xs) = []"
  by (cases xs; cases k) auto

lemma digits_complete:
  assumes "list_all is_digit ds" "lo \<le> length ds" "length ds \<le> hi"
    "r = [] \<or> \<not> is_digit (hd r)"
  shows "digits lo hi (ds @ r) = Some (ds, r)"
proof -
  have "takeWhile is_digit (take hi (ds @ r)) = ds"
    using assms takeWhile_stop [of r is_digit "hi - length ds"]
    by (simp add: list_all_iff)
  then show ?thesis using assms by (simp add: digits_def)
qed

lemma digits_sound:
  assumes "digits lo hi s = Some (ds, r)"
  shows "s = ds @ r \<and> digit_string lo hi ds"
proof -
  let ?t = "takeWhile is_digit (take hi s)"
  have ds: "ds = ?t" and r: "r = drop (length ?t) s" and lo: "lo \<le> length ?t"
    using assms by (auto simp: digits_def Let_def split: if_splits)
  have len: "length ?t \<le> hi"
    by (rule order_trans [OF length_takeWhile_le]) simp
  have "?t = take (length ?t) (take hi s)" by (rule takeWhile_eq_take)
  also have "\<dots> = take (length ?t) s" using len by (simp add: min_def)
  finally have "?t @ drop (length ?t) s = s" by (metis append_take_drop_id)
  moreover have "list_all is_digit ?t" by (simp add: list_all_iff) (metis set_takeWhileD)
  ultimately show ?thesis using ds r lo len by (simp add: digit_string_def)
qed

lemma is_digit_not_special:
  "is_digit c \<Longrightarrow> c \<noteq> CHR ''+'' \<and> c \<noteq> CHR ''-'' \<and> c \<noteq> CHR ''.'' \<and> c \<noteq> CHR '',''"
  by (auto simp: is_digit_def)

lemma opt_sign_sound:
  "opt_sign s = (sg, r) \<Longrightarrow> s = sg @ r \<and> (sg = [] \<or> sg = ''+'' \<or> sg = ''-'')"
  by (auto simp: opt_sign_def split: list.splits if_splits)

lemma opt_sign_complete:
  assumes "sg = [] \<or> sg = ''+'' \<or> sg = ''-''" "r \<noteq> []" "is_digit (hd r)"
  shows "opt_sign (sg @ r) = (sg, r)"
  using assms is_digit_not_special [of "hd r"]
  by (cases r) (auto simp: opt_sign_def)

lemma opt_fraction_sound:
  assumes "opt_fraction s = (fr, r)"
  shows "s = fr @ r \<and> (fr = [] \<or> (\<exists>fs. fr = CHR ''.'' # fs \<and> digit_string 1 15 fs))"
  using assms digits_sound [of 1 15 "tl s"]
  by (auto simp: opt_fraction_def split: list.splits if_splits option.splits)

lemma opt_fraction_complete:
  assumes "fr = [] \<or> (\<exists>fs. fr = CHR ''.'' # fs \<and> digit_string 1 15 fs)"
    "r = [] \<or> hd r = CHR '',''"
  shows "opt_fraction (fr @ r) = (fr, r)"
proof (cases "fr = []")
  case True
  then show ?thesis using assms(2) by (cases r) (auto simp: opt_fraction_def)
next
  case False
  then obtain fs where fr: "fr = CHR ''.'' # fs" and fs: "digit_string 1 15 fs"
    using assms(1) by auto
  have "r = [] \<or> \<not> is_digit (hd r)"
    using assms(2) is_digit_not_special [of "hd r"] by auto
  then have "digits 1 15 (fs @ r) = Some (fs, r)"
    using fs by (intro digits_complete) (simp_all add: digit_string_def)
  then show ?thesis using fr by (simp add: opt_fraction_def)
qed

lemma coord_group_sound:
  assumes "coord_group s = Some (g, r)"
  shows "s = g @ r \<and> spec_number g"
proof -
  obtain sg r0 where s0: "opt_sign s = (sg, r0)" by (cases "opt_sign s")
  obtain ds r1 where d1: "digits 1 3 r0 = Some (ds, r1)"
    using assms s0 by (auto simp: coord_group_def split: option.splits)
  obtain fr r2 where f2: "opt_fraction r1 = (fr, r2)" by (cases "opt_fraction r1")
  have g: "g = sg @ ds @ fr" and r: "r = r2"
    using assms s0 d1 f2 by (simp_all add: coord_group_def)
  show ?thesis
    using opt_sign_sound [OF s0] digits_sound [OF d1] opt_fraction_sound [OF f2] g r
    unfolding spec_number_def by auto
qed

lemma spec_number_parts:
  assumes "spec_number a"
  obtains sg ds fr where "a = sg @ ds @ fr" "sg = [] \<or> sg = ''+'' \<or> sg = ''-''"
    "digit_string 1 3 ds" "fr = [] \<or> (\<exists>fs. fr = CHR ''.'' # fs \<and> digit_string 1 15 fs)"
    "ds \<noteq> []" "is_digit (hd ds)"
proof -
  obtain sg ds fr where a: "a = sg @ ds @ fr"
    and sg: "sg = [] \<or> sg = ''+'' \<or> sg = ''-''"
    and ds: "digit_string 1 3 ds"
    and fr: "fr = [] \<or> (\<exists>fs. fr = CHR ''.'' # fs \<and> digit_string 1 15 fs)"
    using assms unfolding spec_number_def by blast
  have "ds \<noteq> []" and "is_digit (hd ds)"
    using ds by (cases ds; simp add: digit_string_def)+
  then show ?thesis using that a sg ds fr by blast
qed

lemma coord_group_complete:
  assumes "spec_number a" "r = [] \<or> hd r = CHR '',''"
  shows "coord_group (a @ r) = Some (a, r)"
proof -
  obtain sg ds fr where a: "a = sg @ ds @ fr"
    and sg: "sg = [] \<or> sg = ''+'' \<or> sg = ''-''"
    and ds: "digit_string 1 3 ds"
    and fr: "fr = [] \<or> (\<exists>fs. fr = CHR ''.'' # fs \<and> digit_string 1 15 fs)"
    and dne: "ds \<noteq> []" and dhd: "is_digit (hd ds)"
    using assms(1) by (rule spec_number_parts)
  have 1: "opt_sign (sg @ (ds @ fr @ r)) = (sg, ds @ fr @ r)"
    using sg dne dhd by (intro opt_sign_complete) simp_all
  have stop: "fr @ r = [] \<or> \<not> is_digit (hd (fr @ r))"
    using fr assms(2) is_digit_not_special [of "hd r"] is_digit_not_special [of "CHR ''.''"]
    by (cases "fr = []") auto
  have 2: "digits 1 3 (ds @ (fr @ r)) = Some (ds, fr @ r)"
    using ds stop by (intro digits_complete) (simp_all add: digit_string_def)
  have 3: "opt_fraction (fr @ r) = (fr, r)"
    using fr assms(2) by (rule opt_fraction_complete)
  show ?thesis using 1 2 3 by (simp add: coord_group_def a)
qed

lemma match_coords_iff:
  "match_coords s = Some (a, b) \<longleftrightarrow> s = a @ '','' @ b \<and> spec_number a \<and> spec_number b"
proof
  assume m: "match_coords s = Some (a, b)"
  then obtain r where g1: "coord_group s = Some (a, r)"
    by (auto simp: match_coords_def split: option.splits list.splits if_splits)
  then obtain t where r: "r = CHR '','' # t" and g2: "coord_group t = Some (b, [])"
    using m by (auto simp: match_coords_def split: option.splits list.splits if_splits)
  show "s = a @ '','' @ b \<and> spec_number a \<and> spec_number b"
    using coord_group_sound [OF g1] coord_group_sound [OF g2] r by simp
next
  assume h: "s = a @ '','' @ b \<and> spec_number a \<and> spec_number b"
  then have "coord_group (a @ ('','' @ b)) = Some (a, '','' @ b)"
    by (intro coord_group_complete) simp_all
  moreover have "coord_group (b @ []) = Some (b, [])"
    using h by (intro coord_group_complete) simp_all
  ultimately show "match_coords s = Some (a, b)"
    using h by (simp add: match_coords_def)
qed

lemma spec_coords_iff: "spec_coords s \<longleftrightarrow> (\<exists>a b. match_coords s = Some (a, b))"
  unfolding spec_coords_def match_coords_iff by blast

lemma not_spec_coords_iff: "\<not> spec_coords s \<longleftrightarrow> match_coords s = None"
  unfolding spec_coords_iff by (cases "match_coords s") auto

lemma parseFloat_spec_number:
  assumes "spec_number a"
  shows "parseFloat a \<noteq> NaN"
proof -
  obtain sg ds fr where a: "a = sg @ ds @ fr"
    and sg: "sg = [] \<or> sg = ''+'' \<or> sg = ''-''"
    and ds: "digit_string 1 3 ds"
    and fr: "fr = [] \<or> (\<exists>fs. fr = CHR ''.'' # fs \<and> digit_string 1 15 fs)"
    and dne: "ds \<noteq> []" and dhd: "is_digit (hd ds)"
    using assms by (rule spec_number_parts)
  have 1: "opt_sign (sg @ (ds @ fr)) = (sg, ds @ fr)"
    using sg dne dhd by (intro opt_sign_complete) simp_all
  have "takeWhile is_digit (ds @ fr) \<noteq> []"
    using dne dhd by (cases ds) simp_all
  then show ?thesis using 1 by (simp add: parseFloat_def a Let_def nearest_double_def)
qed

lemma match_example: "match_coords ''12.34,-56.78'' = Some (''12.34'', ''-56.78'')"
  by (simp add: match_coords_def coord_group_def opt_sign_def digits_def opt_fraction_def
      is_digit_def)

lemma match_example_bad: "match_coords ''12.34;-56.78'' = None"
  by (simp add: match_coords_def coord_group_def opt_sign_def digits_def opt_fraction_def
      is_digit_def)

lemma parse_example_exact:
  "parseFloat ''12.34'' = nearest_double (1234 / 100)"
  "parseFloat ''-56.78'' = nearest_double (- 5678 / 100)"
  by (simp_all add: parseFloat_def opt_sign_def is_digit_def decimal_def digit_value_def)

lemma nearest_double_example:
  "nearest_double (1234 / 100) = Finite (3473401212609495 / 2 ^ 48)"
  "nearest_double (- 5678 / 100) = Finite (- (1997768647203881 / 2 ^ 45))"
proof -
  have a: "\<bar>1234 / 100 :: rat\<bar> = 1234 / 100"
    by simp
  have e: "max (binade (1234 / 100)) (- 1022) = 3"
    by (simp add: binade.simps)
  have q: "(2::rat) powi (3 - 52) = 1 / 562949953421312"
    by (simp add: power_int_def power_one_over)
  have x: "1234 / 100 / (1 / 562949953421312) = (173670060630474752 / 25 :: rat)"
    by simp
  have f: "\<lfloor>173670060630474752 / 25 :: rat\<rfloor> = 6946802425218990"
    by (simp add: floor_eq_iff)
  have r: "round_half_even (1234 / 100 / (1 / 562949953421312)) = 6946802425218990"
    unfolding round_half_even_def Let_def x f by simp
  show "nearest_double (1234 / 100) = Finite (3473401212609495 / 2 ^ 48)"
    unfolding nearest_double_def Let_def a e q r by (simp add: power_int_def)
  have a: "\<bar>- 5678 / 100 :: rat\<bar> = 5678 / 100"
    by simp
  have e: "max (binade (5678 / 100)) (- 1022) = 5"
    by (simp add: binade.simps)
  have q: "(2::rat) powi (5 - 52) = 1 / 140737488355328"
    by (simp add: power_int_def power_one_over)
  have x: "5678 / 100 / (1 / 140737488355328) = (199776864720388096 / 25 :: rat)"
    by simp
  have f: "\<lfloor>199776864720388096 / 25 :: rat\<rfloor> = 7991074588815523"
    by (simp add: floor_eq_iff)
  have r: "round_half_even (5678 / 100 / (1 / 140737488355328)) = 7991074588815524"
    unfolding round_half_even_def Let_def x f by simp
  show "nearest_double (- 5678 / 100) = Finite (- (1997768647203881 / 2 ^ 45))"
    unfolding nearest_double_def Let_def a e q r by (simp add: power_int_def)
qed

text \<open>A fraction below half the spacing of the doubles near 100 is rounded away.\<close>

lemma parseFloat_rounds:
  "parseFloat ''100.000000000000001'' = Finite 100"
proof -
  have p: "parseFloat ''100.000000000000001'' = nearest_double (100 + 1 / 10 ^ 15)"
    by (simp add: parseFloat_def opt_sign_def is_digit_def decimal_def digit_value_def)
  have a: "\<bar>100 + 1 / 10 ^ 15 :: rat\<bar> = 100 + 1 / 10 ^ 15"
    by simp
  have e: "max (binade (100 + 1 / 10 ^ 15)) (- 1022) = 6"
    by (simp add: binade.simps)
  have q: "(2::rat) powi (6 - 52) = 1 / 70368744177664"
    by (simp add: power_int_def power_one_over)
  have x: "(100 + 1 / 10 ^ 15) / (1 / 70368744177664) = (214748364800000002147483648 / 30517578125 :: rat)"
    by simp
  have f: "\<lfloor>214748364800000002147483648 / 30517578125 :: rat\<rfloor> = 7036874417766400"
    by (simp add: floor_eq_iff)
  have r: "round_half_even ((100 + 1 / 10 ^ 15) / (1 / 70368744177664)) = 7036874417766400"
    unfolding round_half_even_def Let_def x f by simp
  show ?thesis
    unfolding p nearest_double_def Let_def a e q r by (simp add: power_int_def)
qed

section \<open>Region\<close>

text \<open>
  C5. \<open>getRegion\<close> returns \<open>null\<close> when the region name is empty. When the name is not
  empty and the coordinate string has the specified format, it returns the name with
  the two numbers parsed from the two parts of the string, neither of which is \<open>NaN\<close>;
  for \<open>"12.34,-56.78"\<close> these are the numbers that the literals \<open>12.34\<close> and \<open>-56.78\<close>
  denote, the doubles \<open>3473401212609495 / 2^48\<close> and \<open>-1997768647203881 / 2^45\<close>. When
  the name is not empty and the coordinate string is present and does not have the
  format, it fails with the assertion error \<open>Unexpected coordinate format\<close>.
\<close>

theorem getRegion_behaviour:
  "(region_string (region d) = [] \<longrightarrow> Device_getRegion d = Inr None)
   \<and> (region_string (region d) \<noteq> [] \<and> region_coordinates (region d) = Some c \<and> spec_coords c
      \<longrightarrow> (\<exists>a b. c = a @ '','' @ b \<and> parseFloat a \<noteq> NaN \<and> parseFloat b \<noteq> NaN
            \<and> Device_getRegion d =
                Inr (Some \<lparr>name = region_string (region d),
                           latitude = parseFloat a, longitude = parseFloat b\<rparr>)))
   \<and> (region_string (region d) \<noteq> [] \<and> region_coordinates (region d) = Some ''12.34,-56.78''
      \<longrightarrow> Device_getRegion d =
            Inr (Some \<lparr>name = region_string (region d),
                       latitude = nearest_double (1234 / 100),
                       longitude = nearest_double (- 5678 / 100)\<rparr>)
        \<and> nearest_double (1234 / 100) = Finite (3473401212609495 / 2 ^ 48)
        \<and> nearest_double (- 5678 / 100) = Finite (- (1997768647203881 / 2 ^ 45)))
   \<and> (region_string (region d) \<noteq> [] \<and> region_coordinates (region d) = Some c \<and> \<not> spec_coords c
      \<longrightarrow> Device_getRegion d = Inl (AssertionError ''Unexpected coordinate format''))"
proof (intro conjI impI)
  assume "region_string (region d) = []"
  then show "Device_getRegion d = Inr None" by (simp add: Device_getRegion_def)
next
  assume h: "region_string (region d) \<noteq> [] \<and> region_coordinates (region d) = Some c \<and> spec_coords c"
  then obtain a b where m: "match_coords c = Some (a, b)"
    unfolding spec_coords_iff by blast
  then have "c = a @ '','' @ b" "spec_number a" "spec_number b"
    unfolding match_coords_iff by simp_all
  moreover have "Device_getRegion d =
      Inr (Some \<lparr>name = region_string (region d), latitude = parseFloat a, longitude = parseFloat b\<rparr>)"
    using h m by (simp add: Device_getRegion_def)
  ultimately show "\<exists>a b. c = a @ '','' @ b \<and> parseFloat a \<noteq> NaN \<and> parseFloat b \<noteq> NaN
            \<and> Device_getRegion d =
                Inr (Some \<lparr>name = region_string (region d),
                           latitude = parseFloat a, longitude = parseFloat b\<rparr>)"
    using parseFloat_spec_number by blast
next
  assume "region_string (region d) \<noteq> [] \<and> region_coordinates (region d) = Some ''12.34,-56.78''"
  then show "Device_getRegion d =
            Inr (Some \<lparr>name = region_string (region d),
                       latitude = nearest_double (1234 / 100),
                       longitude = nearest_double (- 5678 / 100)\<rparr>)"
    using match_example by (simp add: Device_getRegion_def parse_example_exact)
next
  show "nearest_double (1234 / 100) = Finite (3473401212609495 / 2 ^ 48)"
    by (rule nearest_double_example)
next
  show "nearest_double (- 5678 / 100) = Finite (- (1997768647203881 / 2 ^ 45))"
    by (rule nearest_double_example)
next
  assume h: "region_string (region d) \<noteq> [] \<and> region_coordinates (region d) = Some c \<and> \<not> spec_coords c"
  then have "match_coords c = None" by (simp add: not_spec_coords_iff)
  then show "Device_getRegion d = Inl (AssertionError ''Unexpected coordinate format'')"
    using h by (simp add: Device_getRegion_def)
qed

theorem getRegion_behaviour_witness:
  "Device_getRegion (sample_device\<lparr>region := \<lparr>region_string = [], region_coordinates = None\<rparr>\<rparr>)
     = Inr None
   \<and> (\<exists>a b. ''12.34,-56.78'' = a @ '','' @ b \<and> parseFloat a \<noteq> NaN \<and> parseFloat b \<noteq> NaN
         \<and> Device_getRegion sample_device =
             Inr (Some \<lparr>name = ''Oslo'', latitude = parseFloat a, longitude = parseFloat b\<rparr>))
   \<and> Device_getRegion sample_device =
       Inr (Some \<lparr>name = ''Oslo'', latitude = Finite (3473401212609495 / 2 ^ 48),
                  longitude = Finite (- (1997768647203881 / 2 ^ 45))\<rparr>)
   \<and> Device_getRegion
        (sample_device\<lparr>region := \<lparr>region_string = ''Oslo'',
                                  region_coordinates = Some ''12.34;-56.78''\<rparr>\<rparr>)
       = Inl (AssertionError ''Unexpected coordinate format'')"
proof -
  have ok: "spec_coords ''12.34,-56.78''"
    unfolding spec_coords_iff using match_example by blast
  have bad: "\<not> spec_coords ''12.34;-56.78''"
    unfolding not_spec_coords_iff by (rule match_example_bad)
  have r: "region_string (region sample_device) = ''Oslo''"
    "region_coordinates (region sample_device) = Some ''12.34,-56.78''"
    by (simp_all add: sample_device_def)
  note at_sample = getRegion_behaviour [of sample_device "''12.34,-56.78''"]
  have 1: "Device_getRegion
             (sample_device\<lparr>region := \<lparr>region_string = [], region_coordinates = None\<rparr>\<rparr>)
           = Inr None"
    using getRegion_behaviour
        [of "sample_device\<lparr>region := \<lparr>region_string = [], region_coordinates = None\<rparr>\<rparr>" "[]"]
    by simp
  have 2: "\<exists>a b. ''12.34,-56.78'' = a @ '','' @ b \<and> parseFloat a \<noteq> NaN \<and> parseFloat b \<noteq> NaN
         \<and> Device_getRegion sample_device =
             Inr (Some \<lparr>name = ''Oslo'', latitude = parseFloat a, longitude = parseFloat b\<rparr>)"
    using conjunct1 [OF conjunct2 [OF at_sample]] ok r by simp
  have ne: "region_string (region sample_device) \<noteq> []
            \<and> region_coordinates (region sample_device) = Some ''12.34,-56.78''"
    unfolding r by simp
  note ex = mp [OF conjunct1 [OF conjunct2 [OF conjunct2 [OF at_sample]]] ne]
  have 3: "Device_getRegion sample_device =
       Inr (Some \<lparr>name = ''Oslo'', latitude = Finite (3473401212609495 / 2 ^ 48),
                  longitude = Finite (- (1997768647203881 / 2 ^ 45))\<rparr>)"
    using conjunct1 [OF ex]
    unfolding conjunct1 [OF conjunct2 [OF ex]] conjunct2 [OF conjunct2 [OF ex]] r(1) .
  have 4: "Device_getRegion
        (sample_device\<lparr>region := \<lparr>region_string = ''Oslo'',
                                  region_coordinates = Some ''12.34;-56.78''\<rparr>\<rparr>)
       = Inl (AssertionError ''Unexpected coordinate format'')"
    using getRegion_behaviour
        [of "sample_device\<lparr>region := \<lparr>region_string = ''Oslo'',
                                       region_coordinates = Some ''12.34;-56.78''\<rparr>\<rparr>"
            "''12.34;-56.78''"] bad
    by simp
  show ?thesis using 1 2 3 4 by blast
qed

text \<open>
  C10. When the region name is not empty and the snapshot has no coordinate string,
  \<open>getRegion\<close> fails with the assertion error \<open>Unexpected coordinate format\<close>, which is
  also its outcome for the same snapshot with any coordinate string that does not
  have the format.
\<close>

theorem getRegion_without_coordinates:
  "region_string (region d) \<noteq> [] \<and> region_coordinates (region d) = None
   \<longrightarrow> Device_getRegion d = Inl (AssertionError ''Unexpected coordinate format'')
       \<and> (\<not> spec_coords c
            \<longrightarrow> Device_getRegion (d\<lparr>region := (region d)\<lparr>region_coordinates := Some c\<rparr>\<rparr>)
                  = Device_getRegion d)"
proof (intro impI conjI)
  assume h: "region_string (region d) \<noteq> [] \<and> region_coordinates (region d) = None"
  then show absent: "Device_getRegion d = Inl (AssertionError ''Unexpected coordinate format'')"
    by (simp add: Device_getRegion_def)
  assume "\<not> spec_coords c"
  then have "match_coords c = None"
    by (simp add: not_spec_coords_iff)
  then have "Device_getRegion (d\<lparr>region := (region d)\<lparr>region_coordinates := Some c\<rparr>\<rparr>)
               = Inl (AssertionError ''Unexpected coordinate format'')"
    using h by (simp add: Device_getRegion_def)
  then show "Device_getRegion (d\<lparr>region := (region d)\<lparr>region_coordinates := Some c\<rparr>\<rparr>)
               = Device_getRegion d"
    using absent by simp
qed

theorem getRegion_without_coordinates_witness:
  "Device_getRegion region_without_coordinates
     = Inl (AssertionError ''Unexpected coordinate format'')
   \<and> Device_getRegion
        (region_without_coordinates
           \<lparr>region := (region region_without_coordinates)
                        \<lparr>region_coordinates := Some ''12.34;-56.78''\<rparr>\<rparr>)
       = Device_getRegion region_without_coordinates"
proof -
  have bad: "\<not> spec_coords ''12.34;-56.78''"
    unfolding not_spec_coords_iff by (rule match_example_bad)
  show ?thesis
    using getRegion_without_coordinates [of region_without_coordinates "''12.34;-56.78''"] bad
    by (simp add: region_without_coordinates_def sample_device_def)
qed


section \<open>Refreshing a snapshot\<close>

lemma Device_update_cases:
  "Device_update E d sent =
    (case API_getDevices E (no_options\<lparr>opt_serialNumber := Some (serialNumber d)\<rparr>) sent of
        (Inl e, sent') \<Rightarrow> (Inl e, d, sent')
      | (Inr devices, sent') \<Rightarrow>
          (case devices of
             [x] \<Rightarrow> (Inr (), x, sent')
           | _ \<Rightarrow> (Inl (Error (''Expected 1 device, got '' @ show_nat (length devices))),
                   d, sent')))"
  by (auto simp: Device_update_def split: prod.splits sum.splits list.splits)

lemma update_ok_device:
  "fst (Device_update E d sent) = Inr () \<Longrightarrow>
   fst (API_getDevices E (no_options\<lparr>opt_serialNumber := Some (serialNumber d)\<rparr>) sent)
     = Inr [fst (snd (Device_update E d sent))]"
  by (auto simp: Device_update_cases split: prod.splits sum.splits list.splits)

lemma update_ok_app:
  "fst (App_update E a sent) = Inr () \<Longrightarrow>
   fst (API_getApp E (app_id a) sent) = Inr (fst (snd (App_update E a sent)))"
  by (auto simp: App_update_def split: prod.splits sum.splits)

lemma update_fail_device:
  "fst (Device_update E d sent) = Inl e \<Longrightarrow> fst (snd (Device_update E d sent)) = d"
  by (auto simp: Device_update_cases split: prod.splits sum.splits list.splits)

lemma update_not_single:
  "fst (API_getDevices E (no_options\<lparr>opt_serialNumber := Some (serialNumber d)\<rparr>) sent)
     = Inr devices
   \<Longrightarrow> length devices \<noteq> 1 \<Longrightarrow>
   Device_update E d sent =
     (Inl (Error (''Expected 1 device, got '' @ show_nat (length devices))), d,
      snd (API_getDevices E (no_options\<lparr>opt_serialNumber := Some (serialNumber d)\<rparr>) sent))"
  by (auto simp: Device_update_def split: prod.splits sum.splits)

lemma update_single:
  "fst (API_getDevices E (no_options\<lparr>opt_serialNumber := Some (serialNumber d)\<rparr>) sent)
     = Inr [x]
   \<Longrightarrow> Device_update E d sent =
     (Inr (), x,
      snd (API_getDevices E (no_options\<lparr>opt_serialNumber := Some (serialNumber d)\<rparr>) sent))"
  by (auto simp: Device_update_def split: prod.splits sum.splits)

lemma update_single_app:
  "fst (API_getApp E (app_id a) sent) = Inr y \<Longrightarrow>
   App_update E a sent = (Inr (), y, snd (API_getApp E (app_id a) sent))"
  by (auto simp: App_update_def split: prod.splits sum.splits)

lemma update_changed:
  "fst (snd (Device_update E d sent)) \<noteq> d \<Longrightarrow>
   \<exists>x. fst (API_getDevices E (no_options\<lparr>opt_serialNumber := Some (serialNumber d)\<rparr>) sent)
          = Inr [x]"
  by (auto simp: Device_update_cases split: prod.splits sum.splits list.splits)

lemma lookup_const_env:
  "API_getDevices (const_env \<lparr>status = 200, body = DevicesBody ds\<rparr>)
     (no_options\<lparr>opt_serialNumber := Some sn\<rparr>) [] =
   (Inr ds, [\<lparr>rq_method = GET, rq_path = ''devices'',
               rq_searchParams = Some [(''serialnumber'', sn)], rq_json = None\<rparr>])"
  by (simp add: API_getDevices_def io_defs env_defs toSearchParams_def getDevices_query_def
      no_options_def prim_of_def)

lemma getApp_const_env:
  "API_getApp (const_env \<lparr>status = 200, body = AppBody y\<rparr>) (Finite 3) [] =
   (Inr y, [\<lparr>rq_method = GET, rq_path = ''apps/3'', rq_searchParams = None, rq_json = None\<rparr>])"
  using isValidID_3
  by (simp add: API_getApp_def io_defs env_defs assertValidID_def Number_toString_def
      is_integer_def show_nat.simps digit_char_def)

text \<open>
  C9. When the serial-number lookup of \<open>update\<close> returns a list whose length is not 1,
  \<open>update\<close> throws \<open>Expected 1 device, got n\<close> and the snapshot is the one before;
  whenever \<open>update\<close> fails, the snapshot is the one before; when the lookup returns
  exactly one device, that device becomes the snapshot; and the snapshot differs
  from the one before only if the lookup returned exactly one device.
\<close>

theorem update_replaces_on_single_device:
  "(fst (API_getDevices E (no_options\<lparr>opt_serialNumber := Some (serialNumber d)\<rparr>) sent)
       = Inr devices \<and> length devices \<noteq> 1
     \<longrightarrow> Device_update E d sent =
          (Inl (Error (''Expected 1 device, got '' @ show_nat (length devices))), d,
           snd (API_getDevices E (no_options\<lparr>opt_serialNumber := Some (serialNumber d)\<rparr>) sent)))
   \<and> (fst (Device_update E d sent) = Inl e \<longrightarrow> fst (snd (Device_update E d sent)) = d)
   \<and> (fst (API_getDevices E (no_options\<lparr>opt_serialNumber := Some (serialNumber d)\<rparr>) sent)
       = Inr [x]
     \<longrightarrow> Device_update E d sent =
          (Inr (), x,
           snd (API_getDevices E (no_options\<lparr>opt_serialNumber := Some (serialNumber d)\<rparr>) sent)))
   \<and> (fst (snd (Device_update E d sent)) \<noteq> d
     \<longrightarrow> (\<exists>y. fst (API_getDevices E (no_options\<lparr>opt_serialNumber := Some (serialNumber d)\<rparr>) sent)
               = Inr [y]))"
proof (intro conjI impI)
  assume "fst (API_getDevices E (no_options\<lparr>opt_serialNumber := Some (serialNumber d)\<rparr>) sent)
       = Inr devices \<and> length devices \<noteq> 1"
  then show "Device_update E d sent =
          (Inl (Error (''Expected 1 device, got '' @ show_nat (length devices))), d,
           snd (API_getDevices E (no_options\<lparr>opt_serialNumber := Some (serialNumber d)\<rparr>) sent))"
    using update_not_single [of E d sent devices] by simp
next
  assume "fst (Device_update E d sent) = Inl e"
  then show "fst (snd (Device_update E d sent)) = d" by (rule update_fail_device)
next
  assume "fst (API_getDevices E (no_options\<lparr>opt_serialNumber := Some (serialNumber d)\<rparr>) sent)
       = Inr [x]"
  then show "Device_update E d sent =
          (Inr (), x,
           snd (API_getDevices E (no_options\<lparr>opt_serialNumber := Some (serialNumber d)\<rparr>) sent))"
    by (rule update_single)
next
  assume "fst (snd (Device_update E d sent)) \<noteq> d"
  then show "\<exists>y. fst (API_getDevices E (no_options\<lparr>opt_serialNumber := Some (serialNumber d)\<rparr>) sent)
               = Inr [y]"
    by (rule update_changed)
qed

theorem update_replaces_on_single_device_witness:
  "Device_update no_device_env sample_device [] =
     (Inl (Error ''Expected 1 device, got 0''), sample_device,
      [\<lparr>rq_method = GET, rq_path = ''devices'',
        rq_searchParams = Some [(''serialnumber'', ''F9FXH0AAJF8J'')], rq_json = None\<rparr>])
   \<and> fst (snd (Device_update no_device_env sample_device [])) = sample_device
   \<and> Device_update refreshed_device_env sample_device [] =
     (Inr (), sample_device\<lparr>assetTag := ''B-2''\<rparr>,
      [\<lparr>rq_method = GET, rq_path = ''devices'',
        rq_searchParams = Some [(''serialnumber'', ''F9FXH0AAJF8J'')], rq_json = None\<rparr>])
   \<and> (\<exists>y. fst (API_getDevices refreshed_device_env
               (no_options\<lparr>opt_serialNumber := Some (serialNumber sample_device)\<rparr>) [])
            = Inr [y])"
proof -
  let ?rq = "\<lparr>rq_method = GET, rq_path = ''devices'',
              rq_searchParams = Some [(''serialnumber'', ''F9FXH0AAJF8J'')], rq_json = None\<rparr>"
  have sn: "serialNumber sample_device = ''F9FXH0AAJF8J''"
    by (simp add: sample_device_def)
  have l0: "API_getDevices no_device_env
              (no_options\<lparr>opt_serialNumber := Some (serialNumber sample_device)\<rparr>) []
            = (Inr [], [?rq])"
    unfolding sn no_device_env_def by (rule lookup_const_env)
  have l1: "API_getDevices refreshed_device_env
              (no_options\<lparr>opt_serialNumber := Some (serialNumber sample_device)\<rparr>) []
            = (Inr [sample_device\<lparr>assetTag := ''B-2''\<rparr>], [?rq])"
    unfolding sn refreshed_device_env_def by (rule lookup_const_env)
  have s: "show_nat (length ([]::device_data list)) = ''0''"
    by (simp add: show_nat.simps digit_char_def)
  have 1: "Device_update no_device_env sample_device [] =
             (Inl (Error ''Expected 1 device, got 0''), sample_device, [?rq])"
    using update_replaces_on_single_device [of no_device_env sample_device "[]" "[]"]
    unfolding l0 s by simp
  have 2: "fst (snd (Device_update no_device_env sample_device [])) = sample_device"
    using update_replaces_on_single_device
        [of no_device_env sample_device "[]" _ "Error ''Expected 1 device, got 0''"]
    unfolding 1 by simp
  have 3: "Device_update refreshed_device_env sample_device [] =
             (Inr (), sample_device\<lparr>assetTag := ''B-2''\<rparr>, [?rq])"
    using update_replaces_on_single_device
        [of refreshed_device_env sample_device "[]" _ _ "sample_device\<lparr>assetTag := ''B-2''\<rparr>"]
    unfolding l1 by simp
  have ne: "assetTag (sample_device\<lparr>assetTag := ''B-2''\<rparr>) \<noteq> assetTag sample_device"
    by (simp add: sample_device_def)
  then have "sample_device\<lparr>assetTag := ''B-2''\<rparr> \<noteq> sample_device"
    by (metis (no_types))
  then have changed:
    "fst (snd (Device_update refreshed_device_env sample_device [])) \<noteq> sample_device"
    unfolding 3 by simp
  have 4: "\<exists>y. fst (API_getDevices refreshed_device_env
               (no_options\<lparr>opt_serialNumber := Some (serialNumber sample_device)\<rparr>) [])
            = Inr [y]"
    using conjunct2 [OF conjunct2 [OF conjunct2
        [OF update_replaces_on_single_device [of refreshed_device_env sample_device "[]"]]]]
      changed
    by (rule mp)
  show ?thesis using 1 2 3 4 by (intro conjI)
qed

text \<open>
  C3, as amended. After a successful \<open>update\<close> the snapshot of a \<open>Device\<close> is the single
  record that the serial-number lookup returned, and the snapshot of an \<open>App\<close> is the
  record that \<open>GET /apps/:id\<close> returned; so the UDID, or the ID, is the one before
  whenever the returned record carries the same one.
\<close>

theorem update_identity_follows_response:
  "(fst (Device_update E d sent) = Inr ()
     \<longrightarrow> fst (API_getDevices E (no_options\<lparr>opt_serialNumber := Some (serialNumber d)\<rparr>) sent)
          = Inr [fst (snd (Device_update E d sent))])
   \<and> (fst (API_getDevices E (no_options\<lparr>opt_serialNumber := Some (serialNumber d)\<rparr>) sent)
         = Inr [x] \<and> UDID x = UDID d
     \<longrightarrow> fst (Device_update E d sent) = Inr ()
        \<and> UDID (fst (snd (Device_update E d sent))) = UDID d)
   \<and> (fst (App_update E a sent) = Inr ()
     \<longrightarrow> fst (API_getApp E (app_id a) sent) = Inr (fst (snd (App_update E a sent))))
   \<and> (fst (API_getApp E (app_id a) sent) = Inr y \<and> app_id y = app_id a
     \<longrightarrow> fst (App_update E a sent) = Inr ()
        \<and> app_id (fst (snd (App_update E a sent))) = app_id a)"
proof (intro conjI impI)
  assume "fst (Device_update E d sent) = Inr ()"
  then show "fst (API_getDevices E (no_options\<lparr>opt_serialNumber := Some (serialNumber d)\<rparr>) sent)
          = Inr [fst (snd (Device_update E d sent))]"
    by (rule update_ok_device)
next
  assume h: "fst (API_getDevices E (no_options\<lparr>opt_serialNumber := Some (serialNumber d)\<rparr>) sent)
         = Inr [x] \<and> UDID x = UDID d"
  then have u: "Device_update E d sent =
     (Inr (), x,
      snd (API_getDevices E (no_options\<lparr>opt_serialNumber := Some (serialNumber d)\<rparr>) sent))"
    using update_single [of E d sent x] by simp
  show "fst (Device_update E d sent) = Inr ()" unfolding u by simp
  show "UDID (fst (snd (Device_update E d sent))) = UDID d" unfolding u using h by simp
next
  assume "fst (App_update E a sent) = Inr ()"
  then show "fst (API_getApp E (app_id a) sent) = Inr (fst (snd (App_update E a sent)))"
    by (rule update_ok_app)
next
  assume h: "fst (API_getApp E (app_id a) sent) = Inr y \<and> app_id y = app_id a"
  then have u: "App_update E a sent = (Inr (), y, snd (API_getApp E (app_id a) sent))"
    using update_single_app [of E a sent y] by simp
  show "fst (App_update E a sent) = Inr ()" unfolding u by simp
  show "app_id (fst (snd (App_update E a sent))) = app_id a" unfolding u using h by simp
qed

theorem update_identity_follows_response_witness:
  "fst (API_getDevices refreshed_device_env
          (no_options\<lparr>opt_serialNumber := Some (serialNumber sample_device)\<rparr>) [])
     = Inr [fst (snd (Device_update refreshed_device_env sample_device []))]
   \<and> UDID (fst (snd (Device_update refreshed_device_env sample_device []))) = UDID sample_device
   \<and> fst (API_getApp refreshed_app_env (app_id sample_app) [])
       = Inr (fst (snd (App_update refreshed_app_env sample_app [])))
   \<and> app_id (fst (snd (App_update refreshed_app_env sample_app []))) = app_id sample_app"
proof -
  have sn: "serialNumber sample_device = ''F9FXH0AAJF8J''"
    by (simp add: sample_device_def)
  have l: "fst (API_getDevices refreshed_device_env
                  (no_options\<lparr>opt_serialNumber := Some (serialNumber sample_device)\<rparr>) [])
           = Inr [sample_device\<lparr>assetTag := ''B-2''\<rparr>]"
    unfolding sn refreshed_device_env_def lookup_const_env by simp
  have ai: "app_id sample_app = Finite 3"
    by (simp add: sample_app_def)
  have g: "fst (API_getApp refreshed_app_env (app_id sample_app) [])
           = Inr (sample_app\<lparr>app_name := ''Renamed''\<rparr>)"
    unfolding ai refreshed_app_env_def getApp_const_env by simp
  have same: "UDID (sample_device\<lparr>assetTag := ''B-2''\<rparr>) = UDID sample_device"
    "app_id (sample_app\<lparr>app_name := ''Renamed''\<rparr>) = app_id sample_app"
    by simp_all
  note dev = update_identity_follows_response
      [of refreshed_device_env sample_device "[]" "sample_device\<lparr>assetTag := ''B-2''\<rparr>"]
  note app = update_identity_follows_response
      [of refreshed_app_env _ "[]" _ sample_app "sample_app\<lparr>app_name := ''Renamed''\<rparr>"]
  have d2: "fst (Device_update refreshed_device_env sample_device []) = Inr ()
        \<and> UDID (fst (snd (Device_update refreshed_device_env sample_device []))) = UDID sample_device"
    using conjunct1 [OF conjunct2 [OF dev]] l same(1) by blast
  have d1: "fst (API_getDevices refreshed_device_env
          (no_options\<lparr>opt_serialNumber := Some (serialNumber sample_device)\<rparr>) [])
     = Inr [fst (snd (Device_update refreshed_device_env sample_device []))]"
    using conjunct1 [OF dev] d2 by blast
  have a2: "fst (App_update refreshed_app_env sample_app []) = Inr ()
        \<and> app_id (fst (snd (App_update refreshed_app_env sample_app []))) = app_id sample_app"
    using conjunct2 [OF conjunct2 [OF conjunct2 [OF app]]] g same(2) by blast
  have a1: "fst (API_getApp refreshed_app_env (app_id sample_app) [])
       = Inr (fst (snd (App_update refreshed_app_env sample_app [])))"
    using conjunct1 [OF conjunct2 [OF conjunct2 [OF app]]] a2 by blast
  show ?thesis using d1 d2 a1 a2 by blast
qed

text \<open>
  C3 as stated fails: the service may answer the lookup by serial number with a
  device that has another UDID, and \<open>GET /apps/:id\<close> with an app that has another ID;
  \<open>update\<close> succeeds and takes the record it is given.
\<close>

theorem update_identity_counterexample:
  "Device_update other_udid_env sample_device [] =
     (Inr (), sample_device\<lparr>UDID := ''deadbeef''\<rparr>,
      [\<lparr>rq_method = GET, rq_path = ''devices'',
        rq_searchParams = Some [(''serialnumber'', ''F9FXH0AAJF8J'')], rq_json = None\<rparr>])
   \<and> UDID sample_device = ''c0ffee''
   \<and> App_update other_id_env sample_app [] =
     (Inr (), sample_app\<lparr>app_id := Finite 4\<rparr>,
      [\<lparr>rq_method = GET, rq_path = ''apps/3'', rq_searchParams = None, rq_json = None\<rparr>])
   \<and> app_id sample_app = Finite 3"
proof -
  have sn: "serialNumber sample_device = ''F9FXH0AAJF8J''"
    by (simp add: sample_device_def)
  have ai: "app_id sample_app = Finite 3"
    by (simp add: sample_app_def)
  have 1: "Device_update other_udid_env sample_device [] =
     (Inr (), sample_device\<lparr>UDID := ''deadbeef''\<rparr>,
      [\<lparr>rq_method = GET, rq_path = ''devices'',
        rq_searchParams = Some [(''serialnumber'', ''F9FXH0AAJF8J'')], rq_json = None\<rparr>])"
    unfolding Device_update_def sn other_udid_env_def lookup_const_env by simp
  have 2: "App_update other_id_env sample_app [] =
     (Inr (), sample_app\<lparr>app_id := Finite 4\<rparr>,
      [\<lparr>rq_method = GET, rq_path = ''apps/3'', rq_searchParams = None, rq_json = None\<rparr>])"
    unfolding App_update_def ai other_id_env_def getApp_const_env by simp
  have 3: "UDID sample_device = ''c0ffee''"
    by (simp add: sample_device_def)
  show ?thesis using 1 2 3 ai by blast
qed


section \<open>Owner and attribute writes\<close>

lemma setOwner_zero:
  "Device_setOwner E (Finite 0) d sent =
     (Inl (AssertionError
        ''Using ID 0 would remove the owner. If this is intentional, use `Device.removeOwner()`''),
      d, sent)"
  by (simp add: Device_setOwner_def assert_def strict_eq_def)

lemma removeOwner_unowned:
  "owner_id (owner d) = Finite 0 \<Longrightarrow> Device_removeOwner E d sent = (Inr (), d, sent)"
  by (simp add: Device_removeOwner_def strict_eq_def)

lemma removeOwner_owned:
  "owner_id (owner d) \<noteq> Finite 0 \<Longrightarrow>
   Device_removeOwner E d sent = await_void (API_setDeviceOwner E (UDID d) (Finite 0)) d sent"
  by (simp add: Device_removeOwner_def strict_eq_zero)

lemma removeOwner_request:
  assumes "owner_id (owner d) \<noteq> Finite 0" "isValidUDID (UDID d)"
  shows "snd (snd (Device_removeOwner E d sent)) =
     sent @ [\<lparr>rq_method = PUT, rq_path = ''devices/'' @ UDID d @ ''/owner'',
              rq_searchParams = None, rq_json = Some (Obj [(''user'', Num 0)])\<rparr>]"
  unfolding removeOwner_owned [OF assms(1)] await_void_sent
    setDeviceOwner_sent [OF assms(2) isValidID_zero]
  by simp

text \<open>
  C6. \<open>setOwner({id: 0})\<close> fails with an assertion error and sends nothing.
  \<open>removeOwner()\<close> sends nothing when the owner ID of the snapshot is 0; when it is
  not 0, \<open>removeOwner()\<close> is the call \<open>setDeviceOwner(udid, 0)\<close> with the UDID of the
  snapshot, which for a valid UDID sends one \<open>PUT\<close> of \<open>devices/:udid/owner\<close> with the
  body \<open>{user: 0}\<close>.
\<close>

theorem owner_sentinel:
  "(\<exists>msg. Device_setOwner E (Finite 0) d sent = (Inl (AssertionError msg), d, sent))
   \<and> (owner_id (owner d) = Finite 0 \<longrightarrow> Device_removeOwner E d sent = (Inr (), d, sent))
   \<and> (owner_id (owner d) \<noteq> Finite 0
      \<longrightarrow> Device_removeOwner E d sent
            = await_void (API_setDeviceOwner E (UDID d) (Finite 0)) d sent
        \<and> (isValidUDID (UDID d)
            \<longrightarrow> snd (snd (Device_removeOwner E d sent)) =
                  sent @ [\<lparr>rq_method = PUT, rq_path = ''devices/'' @ UDID d @ ''/owner'',
                           rq_searchParams = None,
                           rq_json = Some (Obj [(''user'', Num 0)])\<rparr>]))"
  using setOwner_zero [of E d sent] removeOwner_unowned [of d E sent]
    removeOwner_owned [of d E sent] removeOwner_request [of d E sent]
  by simp

theorem owner_sentinel_witness:
  "(\<exists>msg. Device_setOwner (const_env owner_ok) (Finite 0) sample_device []
            = (Inl (AssertionError msg), sample_device, []))
   \<and> Device_removeOwner (const_env owner_ok) unowned_device [] = (Inr (), unowned_device, [])
   \<and> snd (snd (Device_removeOwner (const_env owner_ok) sample_device [])) =
       [\<lparr>rq_method = PUT, rq_path = ''devices/c0ffee/owner'', rq_searchParams = None,
         rq_json = Some (Obj [(''user'', Num 0)])\<rparr>]"
proof -
  have o0: "owner_id (owner unowned_device) = Finite 0"
    by (simp add: unowned_device_def)
  have o7: "owner_id (owner sample_device) \<noteq> Finite 0"
    by (simp add: sample_device_def)
  have u: "UDID sample_device = ''c0ffee''"
    by (simp add: sample_device_def)
  have v: "isValidUDID (UDID sample_device)"
    unfolding u by (rule isValidUDID_c0ffee)
  note s = owner_sentinel [of "const_env owner_ok" sample_device "[]"]
  note n = owner_sentinel [of "const_env owner_ok" unowned_device "[]"]
  have 1: "\<exists>msg. Device_setOwner (const_env owner_ok) (Finite 0) sample_device []
            = (Inl (AssertionError msg), sample_device, [])"
    by (rule conjunct1 [OF s])
  have 2: "Device_removeOwner (const_env owner_ok) unowned_device [] = (Inr (), unowned_device, [])"
    using conjunct1 [OF conjunct2 [OF n]] o0 by (rule mp)
  have 3: "snd (snd (Device_removeOwner (const_env owner_ok) sample_device [])) =
       [] @ [\<lparr>rq_method = PUT, rq_path = ''devices/'' @ UDID sample_device @ ''/owner'',
              rq_searchParams = None, rq_json = Some (Obj [(''user'', Num 0)])\<rparr>]"
    using conjunct2 [OF conjunct2 [OF s]] o7 v by blast
  show ?thesis using 1 2 3 unfolding u by simp
qed

lemma setAssetTag_request:
  assumes "assetTag d \<noteq> v" "isValidUDID (UDID d)"
  shows "snd (snd (Device_setAssetTag E v d sent)) =
     sent @ [\<lparr>rq_method = POST, rq_path = ''devices/'' @ UDID d @ ''/details'',
              rq_searchParams = None, rq_json = Some (Obj [(''assetTag'', Str v)])\<rparr>]"
  using assms updateDevice_sent [of "UDID d" E "JObject [(''assetTag'', JString v)]" sent]
  by (simp add: Device_setAssetTag_def await_void_sent)

lemma setNotes_request:
  assumes "deviceNotes d \<noteq> v" "isValidUDID (UDID d)"
  shows "snd (snd (Device_setNotes E v d sent)) =
     sent @ [\<lparr>rq_method = POST, rq_path = ''devices/'' @ UDID d @ ''/details'',
              rq_searchParams = None, rq_json = Some (Obj [(''notes'', Str v)])\<rparr>]"
  using assms updateDevice_sent [of "UDID d" E "JObject [(''notes'', JString v)]" sent]
  by (simp add: Device_setNotes_def await_void_sent)

lemma isValidID_Finite: "isValidID n \<Longrightarrow> \<exists>r. n = Finite r"
  by (cases n) (simp_all add: isValidID_def)

lemma setLocation_request:
  assumes "\<not> strict_eq (locationId d) n" "isValidUDID (UDID d)" "isValidID n"
  shows "\<exists>r. n = Finite r \<and> snd (snd (Device_setLocation E n d sent)) =
     sent @ [\<lparr>rq_method = PUT, rq_path = ''devices/'' @ UDID d @ ''/migrate'',
              rq_searchParams = None, rq_json = Some (Obj [(''locationId'', Num r)])\<rparr>]"
proof -
  obtain r where r: "n = Finite r" using isValidID_Finite [OF assms(3)] by blast
  have "snd (snd (Device_setLocation E n d sent)) =
     sent @ [\<lparr>rq_method = PUT, rq_path = ''devices/'' @ UDID d @ ''/migrate'',
              rq_searchParams = None, rq_json = Some (Obj [(''locationId'', Num r)])\<rparr>]"
    using assms(1) moveDevice_sent [OF assms(2,3), of E None sent] r
    by (simp add: Device_setLocation_def await_void_sent options_onlyDevice_def)
  then show ?thesis using r by blast
qed

lemma setLocation_invalid:
  assumes "\<not> strict_eq (locationId d) n" "\<not> isValidUDID (UDID d) \<or> \<not> isValidID n"
  shows "\<exists>msg. Device_setLocation E n d sent = (Inl (AssertionError msg), d, sent)"
  using assms
  by (auto simp: Device_setLocation_def await_void_def API_moveDevice_def io_check_def
      assertValidUDID_def assertValidID_def assert_def)

lemma updateDevice_invalid:
  "\<not> isValidUDID udid \<Longrightarrow>
   \<exists>msg. await_void (API_updateDevice E udid data) d sent = (Inl (AssertionError msg), d, sent)"
  by (simp add: await_void_def API_updateDevice_def io_check_def assertValidUDID_def assert_def)

lemma setters_keep_snapshot:
  "fst (snd (Device_setAssetTag E v d sent)) = d"
  "fst (snd (Device_setNotes E v d sent)) = d"
  "fst (snd (Device_setLocation E n d sent)) = d"
  by (simp_all add: Device_setAssetTag_def Device_setNotes_def Device_setLocation_def
      await_void_data)

text \<open>
  C8, as amended. Each of \<open>setAssetTag\<close>, \<open>setNotes\<close> and \<open>setLocation\<close> sends nothing
  when the value equals the field of the snapshot. When it differs and the UDID of
  the snapshot is valid (and, for \<open>setLocation\<close>, the ID is valid), exactly one
  request is sent, the write of that value; a differing location that is not a valid
  ID, or a snapshot whose UDID is not valid, fails the assertion of the API and
  nothing is sent. In every case the snapshot afterwards is the snapshot before.
\<close>

theorem setters_skip_equal_values:
  "(assetTag d = v \<longrightarrow> Device_setAssetTag E v d sent = (Inr (), d, sent))
   \<and> (assetTag d \<noteq> v \<and> isValidUDID (UDID d)
      \<longrightarrow> snd (snd (Device_setAssetTag E v d sent)) =
            sent @ [\<lparr>rq_method = POST, rq_path = ''devices/'' @ UDID d @ ''/details'',
                     rq_searchParams = None,
                     rq_json = Some (Obj [(''assetTag'', Str v)])\<rparr>])
   \<and> (deviceNotes d = v \<longrightarrow> Device_setNotes E v d sent = (Inr (), d, sent))
   \<and> (deviceNotes d \<noteq> v \<and> isValidUDID (UDID d)
      \<longrightarrow> snd (snd (Device_setNotes E v d sent)) =
            sent @ [\<lparr>rq_method = POST, rq_path = ''devices/'' @ UDID d @ ''/details'',
                     rq_searchParams = None,
                     rq_json = Some (Obj [(''notes'', Str v)])\<rparr>])
   \<and> (strict_eq (locationId d) n \<longrightarrow> Device_setLocation E n d sent = (Inr (), d, sent))
   \<and> (\<not> strict_eq (locationId d) n \<and> isValidUDID (UDID d) \<and> isValidID n
      \<longrightarrow> (\<exists>r. n = Finite r \<and> snd (snd (Device_setLocation E n d sent)) =
            sent @ [\<lparr>rq_method = PUT, rq_path = ''devices/'' @ UDID d @ ''/migrate'',
                     rq_searchParams = None,
                     rq_json = Some (Obj [(''locationId'', Num r)])\<rparr>]))
   \<and> (\<not> strict_eq (locationId d) n \<and> (\<not> isValidUDID (UDID d) \<or> \<not> isValidID n)
      \<longrightarrow> (\<exists>msg. Device_setLocation E n d sent = (Inl (AssertionError msg), d, sent)))
   \<and> (assetTag d \<noteq> v \<and> \<not> isValidUDID (UDID d)
      \<longrightarrow> (\<exists>msg. Device_setAssetTag E v d sent = (Inl (AssertionError msg), d, sent)))
   \<and> (deviceNotes d \<noteq> v \<and> \<not> isValidUDID (UDID d)
      \<longrightarrow> (\<exists>msg. Device_setNotes E v d sent = (Inl (AssertionError msg), d, sent)))
   \<and> fst (snd (Device_setAssetTag E v d sent)) = d
   \<and> fst (snd (Device_setNotes E v d sent)) = d
   \<and> fst (snd (Device_setLocation E n d sent)) = d"
proof (intro conjI impI)
  assume "assetTag d = v"
  then show "Device_setAssetTag E v d sent = (Inr (), d, sent)"
    by (simp add: Device_setAssetTag_def)
next
  assume "assetTag d \<noteq> v \<and> isValidUDID (UDID d)"
  then show "snd (snd (Device_setAssetTag E v d sent)) =
            sent @ [\<lparr>rq_method = POST, rq_path = ''devices/'' @ UDID d @ ''/details'',
                     rq_searchParams = None,
                     rq_json = Some (Obj [(''assetTag'', Str v)])\<rparr>]"
    using setAssetTag_request [of d v E sent] by simp
next
  assume "deviceNotes d = v"
  then show "Device_setNotes E v d sent = (Inr (), d, sent)"
    by (simp add: Device_setNotes_def)
next
  assume "deviceNotes d \<noteq> v \<and> isValidUDID (UDID d)"
  then show "snd (snd (Device_setNotes E v d sent)) =
            sent @ [\<lparr>rq_method = POST, rq_path = ''devices/'' @ UDID d @ ''/details'',
                     rq_searchParams = None,
                     rq_json = Some (Obj [(''notes'', Str v)])\<rparr>]"
    using setNotes_request [of d v E sent] by simp
next
  assume "strict_eq (locationId d) n"
  then show "Device_setLocation E n d sent = (Inr (), d, sent)"
    by (simp add: Device_setLocation_def)
next
  assume "\<not> strict_eq (locationId d) n \<and> isValidUDID (UDID d) \<and> isValidID n"
  then show "\<exists>r. n = Finite r \<and> snd (snd (Device_setLocation E n d sent)) =
            sent @ [\<lparr>rq_method = PUT, rq_path = ''devices/'' @ UDID d @ ''/migrate'',
                     rq_searchParams = None,
                     rq_json = Some (Obj [(''locationId'', Num r)])\<rparr>]"
    using setLocation_request [of d n E sent] by simp
next
  assume "\<not> strict_eq (locationId d) n \<and> (\<not> isValidUDID (UDID d) \<or> \<not> isValidID n)"
  then show "\<exists>msg. Device_setLocation E n d sent = (Inl (AssertionError msg), d, sent)"
    using setLocation_invalid [of d n E sent] by simp
next
  assume "assetTag d \<noteq> v \<and> \<not> isValidUDID (UDID d)"
  then show "\<exists>msg. Device_setAssetTag E v d sent = (Inl (AssertionError msg), d, sent)"
    using updateDevice_invalid [of "UDID d" E _ d sent] by (simp add: Device_setAssetTag_def)
next
  assume "deviceNotes d \<noteq> v \<and> \<not> isValidUDID (UDID d)"
  then show "\<exists>msg. Device_setNotes E v d sent = (Inl (AssertionError msg), d, sent)"
    using updateDevice_invalid [of "UDID d" E _ d sent] by (simp add: Device_setNotes_def)
qed (rule setters_keep_snapshot)+

theorem setters_skip_equal_values_witness:
  "Device_setAssetTag (const_env migrate_ok) ''A-1'' sample_device [] = (Inr (), sample_device, [])
   \<and> snd (snd (Device_setAssetTag (const_env migrate_ok) ''B-2'' sample_device [])) =
       [\<lparr>rq_method = POST, rq_path = ''devices/c0ffee/details'', rq_searchParams = None,
         rq_json = Some (Obj [(''assetTag'', Str ''B-2'')])\<rparr>]
   \<and> Device_setNotes (const_env migrate_ok) [] sample_device [] = (Inr (), sample_device, [])
   \<and> snd (snd (Device_setNotes (const_env migrate_ok) ''lost'' sample_device [])) =
       [\<lparr>rq_method = POST, rq_path = ''devices/c0ffee/details'', rq_searchParams = None,
         rq_json = Some (Obj [(''notes'', Str ''lost'')])\<rparr>]
   \<and> Device_setLocation (const_env migrate_ok) (Finite 0) sample_device []
       = (Inr (), sample_device, [])
   \<and> (\<exists>r. Finite 5 = Finite r
         \<and> snd (snd (Device_setLocation (const_env migrate_ok) (Finite 5) sample_device [])) =
             [\<lparr>rq_method = PUT, rq_path = ''devices/c0ffee/migrate'', rq_searchParams = None,
               rq_json = Some (Obj [(''locationId'', Num r)])\<rparr>])
   \<and> (\<exists>msg. Device_setLocation (const_env migrate_ok) (Finite (- 1)) sample_device []
              = (Inl (AssertionError msg), sample_device, []))
   \<and> (\<exists>msg. Device_setAssetTag (const_env migrate_ok) ''B-2'' (sample_device\<lparr>UDID := ''xyz''\<rparr>) []
              = (Inl (AssertionError msg), sample_device\<lparr>UDID := ''xyz''\<rparr>, []))
   \<and> (\<exists>msg. Device_setNotes (const_env migrate_ok) ''lost'' (sample_device\<lparr>UDID := ''xyz''\<rparr>) []
              = (Inl (AssertionError msg), sample_device\<lparr>UDID := ''xyz''\<rparr>, []))"
proof -
  have f: "UDID sample_device = ''c0ffee''" "assetTag sample_device = ''A-1''"
    "deviceNotes sample_device = []" "locationId sample_device = Finite 0"
    by (simp_all add: sample_device_def)
  have u: "isValidUDID (UDID sample_device)"
    unfolding f by (rule isValidUDID_c0ffee)
  have i5: "isValidID (Finite 5)" and i1: "\<not> isValidID (Finite (- 1))"
    by (simp_all add: isValidID_def is_integer_def)
  have e0: "strict_eq (locationId sample_device) (Finite 0)"
    and e5: "\<not> strict_eq (locationId sample_device) (Finite 5)"
    and e1: "\<not> strict_eq (locationId sample_device) (Finite (- 1))"
    unfolding f by (simp_all add: strict_eq_def)
  note same = setters_skip_equal_values [of sample_device "''A-1''" "const_env migrate_ok" "[]" "Finite 0"]
  note tag = setters_skip_equal_values [of sample_device "''B-2''" "const_env migrate_ok" "[]" "Finite 5"]
  note note0 = setters_skip_equal_values [of sample_device "[]" "const_env migrate_ok" "[]" "Finite 0"]
  note lost = setters_skip_equal_values [of sample_device "''lost''" "const_env migrate_ok" "[]" "Finite (- 1)"]
  have 1: "Device_setAssetTag (const_env migrate_ok) ''A-1'' sample_device []
           = (Inr (), sample_device, [])"
    using same f(2) by blast
  have 2: "snd (snd (Device_setAssetTag (const_env migrate_ok) ''B-2'' sample_device [])) =
       [] @ [\<lparr>rq_method = POST, rq_path = ''devices/'' @ UDID sample_device @ ''/details'',
         rq_searchParams = None, rq_json = Some (Obj [(''assetTag'', Str ''B-2'')])\<rparr>]"
    using conjunct1 [OF conjunct2 [OF tag]] u f(2) by simp
  have 3: "Device_setNotes (const_env migrate_ok) [] sample_device [] = (Inr (), sample_device, [])"
    using conjunct1 [OF conjunct2 [OF conjunct2 [OF note0]]] f(3) by (rule mp)
  have 4: "snd (snd (Device_setNotes (const_env migrate_ok) ''lost'' sample_device [])) =
       [] @ [\<lparr>rq_method = POST, rq_path = ''devices/'' @ UDID sample_device @ ''/details'',
         rq_searchParams = None, rq_json = Some (Obj [(''notes'', Str ''lost'')])\<rparr>]"
    using conjunct1 [OF conjunct2 [OF conjunct2 [OF conjunct2 [OF lost]]]] u f(3) by simp
  have 5: "Device_setLocation (const_env migrate_ok) (Finite 0) sample_device []
       = (Inr (), sample_device, [])"
    using conjunct1 [OF conjunct2 [OF conjunct2 [OF conjunct2 [OF conjunct2 [OF same]]]]] e0
    by (rule mp)
  have 6: "\<exists>r. Finite 5 = Finite r
         \<and> snd (snd (Device_setLocation (const_env migrate_ok) (Finite 5) sample_device [])) =
             [] @ [\<lparr>rq_method = PUT, rq_path = ''devices/'' @ UDID sample_device @ ''/migrate'',
               rq_searchParams = None, rq_json = Some (Obj [(''locationId'', Num r)])\<rparr>]"
    using conjunct1 [OF conjunct2 [OF conjunct2 [OF conjunct2 [OF conjunct2 [OF conjunct2 [OF tag]]]]]]
      e5 u i5 by blast
  have 7: "\<exists>msg. Device_setLocation (const_env migrate_ok) (Finite (- 1)) sample_device []
              = (Inl (AssertionError msg), sample_device, [])"
    using conjunct1 [OF conjunct2 [OF conjunct2 [OF conjunct2 [OF conjunct2 [OF conjunct2
        [OF conjunct2 [OF lost]]]]]]] e1 i1 by blast
  have g: "assetTag (sample_device\<lparr>UDID := ''xyz''\<rparr>) \<noteq> ''B-2''"
    "deviceNotes (sample_device\<lparr>UDID := ''xyz''\<rparr>) \<noteq> ''lost''"
    "\<not> isValidUDID (UDID (sample_device\<lparr>UDID := ''xyz''\<rparr>))"
    using not_isValidUDID_xyz by (simp_all add: sample_device_def)
  have 8: "\<exists>msg. Device_setAssetTag (const_env migrate_ok) ''B-2''
                  (sample_device\<lparr>UDID := ''xyz''\<rparr>) []
              = (Inl (AssertionError msg), sample_device\<lparr>UDID := ''xyz''\<rparr>, [])"
    using setters_skip_equal_values
        [of "sample_device\<lparr>UDID := ''xyz''\<rparr>" "''B-2''" "const_env migrate_ok" "[]" "Finite 0"]
      g(1,3)
    by blast
  have 9: "\<exists>msg. Device_setNotes (const_env migrate_ok) ''lost''
                  (sample_device\<lparr>UDID := ''xyz''\<rparr>) []
              = (Inl (AssertionError msg), sample_device\<lparr>UDID := ''xyz''\<rparr>, [])"
    using setters_skip_equal_values
        [of "sample_device\<lparr>UDID := ''xyz''\<rparr>" "''lost''" "const_env migrate_ok" "[]" "Finite 0"]
      g(2,3)
    by blast
  show ?thesis using 1 2 3 4 5 6 7 8 9 unfolding f(1) by simp
qed

text \<open>
  C8 as stated fails: a location that differs from the one of the snapshot and is not
  a valid ID makes \<open>setLocation\<close> fail in the check of the API, and no write is issued.
\<close>

theorem setLocation_invalid_counterexample:
  "Device_setLocation (const_env migrate_ok) (Finite (- 1)) sample_device []
     = (Inl (AssertionError ''Invalid ID: must be a positive integer.''), sample_device, [])
   \<and> locationId sample_device = Finite 0"
proof -
  have f: "UDID sample_device = ''c0ffee''" "locationId sample_device = Finite 0"
    by (simp_all add: sample_device_def)
  have i1: "\<not> isValidID (Finite (- 1))"
    by (simp add: isValidID_def)
  have "Device_setLocation (const_env migrate_ok) (Finite (- 1)) sample_device []
     = (Inl (AssertionError ''Invalid ID: must be a positive integer.''), sample_device, [])"
    unfolding Device_setLocation_def f using isValidUDID_c0ffee i1
    by (simp add: strict_eq_def await_void_def API_moveDevice_def io_check_def
        assertValidUDID_def assertValidID_def assert_def)
  then show ?thesis using f(2) by simp
qed

section \<open>Installed apps\<close>

lemma getApps_generic:
  assumes "API_getApps E sent = (r1, sent1)"
    and "API_getDevice E (UDID d) \<lparr>includeApps = Some True\<rparr> sent1 = (r2, sent2)"
  shows "Device_getApps E d sent =
     (case Promise_all (if sent2 = sent1 then SecondSettlesFirst else race E sent2) r1 r2 of
        Inl e \<Rightarrow> (suppressAPIError [] e, d, sent2)
      | Inr (as, myAppData) \<Rightarrow>
          (case detail_apps myAppData of
             None \<Rightarrow> (Inl (Error ''Missing 'apps' property in returned apps''), d, sent2)
           | Some mine \<Rightarrow>
               (Inr (filter (\<lambda>app. app_bundleId app \<in> set (map inst_identifier mine)) as),
                d, sent2)))"
  using assms
  by (auto simp: Device_getApps_def Let_def split: sum.splits option.splits prod.splits)

lemma Promise_all_recoverable:
  assumes "\<exists>e. r1 = Inl e \<or> r2 = Inl e"
    "\<forall>e. r1 = Inl e \<or> r2 = Inl e \<longrightarrow> is_APIError_class e"
  shows "\<exists>e. Promise_all order r1 r2 = Inl e \<and> is_APIError_class e"
  using assms by (cases r1; cases r2; cases order) (auto simp: Promise_all_def)

lemma getApps_recoverable:
  assumes "API_getApps E sent = (r1, sent1)"
    and "API_getDevice E (UDID d) \<lparr>includeApps = Some True\<rparr> sent1 = (r2, sent2)"
    and "\<exists>e. r1 = Inl e \<or> r2 = Inl e"
    and "\<forall>e. r1 = Inl e \<or> r2 = Inl e \<longrightarrow> is_APIError_class e"
  shows "Device_getApps E d sent = (Inr [], d, sent2)"
proof -
  obtain e
    where "Promise_all (if sent2 = sent1 then SecondSettlesFirst else race E sent2) r1 r2 = Inl e"
      and "is_APIError_class e"
    using Promise_all_recoverable [OF assms(3,4)] by blast
  then show ?thesis
    unfolding getApps_generic [OF assms(1,2)] by (simp add: suppressAPIError_def)
qed

lemma getApps_missing:
  assumes "API_getApps E sent = (Inr as, sent1)"
    and "API_getDevice E (UDID d) \<lparr>includeApps = Some True\<rparr> sent1 = (Inr dt, sent2)"
    and "detail_apps dt = None"
  shows "Device_getApps E d sent =
           (Inl (Error ''Missing 'apps' property in returned apps''), d, sent2)"
  unfolding getApps_generic [OF assms(1,2)] using assms(3) by (simp add: Promise_all_def)

lemma apps_down_list:
  "API_getApps apps_down_env [] =
     (Inl (APIError 500),
      [\<lparr>rq_method = GET, rq_path = ''apps'', rq_searchParams = None, rq_json = None\<rparr>])"
  by (simp add: API_getApps_def io_defs env_defs apps_down_env_def)

lemma apps_up_list:
  "API_getApps apps_up_env [] =
     (Inr [sample_app],
      [\<lparr>rq_method = GET, rq_path = ''apps'', rq_searchParams = None, rq_json = None\<rparr>])"
  by (simp add: API_getApps_def io_defs env_defs apps_up_env_def)

lemma detail_lacks_apps:
  "API_getDevice (path_env (\<lambda>p. if p = ''apps'' then r else detail_without_apps)) ''c0ffee''
      \<lparr>includeApps = Some True\<rparr> sent
   = (Inr \<lparr>detail_UDID = ''c0ffee'', detail_apps = None\<rparr>,
      sent @ [\<lparr>rq_method = GET, rq_path = ''devices/c0ffee'',
               rq_searchParams = Some [(''includeApps'', ''true'')], rq_json = None\<rparr>])"
  using isValidUDID_c0ffee
  by (simp add: API_getDevice_def io_defs env_defs detail_without_apps_def assertValidUDID_def
      getDevice_query_def toSearchParams_def)

lemma detail_invalid_udid:
  "API_getDevice E ''xyz'' options sent = (Inl (AssertionError ''Invalid UDID: xyz''), sent)"
  using not_isValidUDID_xyz
  by (simp add: API_getDevice_def io_check_def assertValidUDID_def assert_def)

text \<open>
  C4, as amended. When at least one of the two calls of \<open>getApps\<close> (the app list, the
  device detail with apps included) fails and every one that fails does so with an
  error of the \<open>APIError\<close> class, \<open>getApps\<close> returns the empty array. When both calls
  succeed and the device detail has no \<open>apps\<close>, \<open>getApps\<close> throws
  \<open>Missing 'apps' property in returned apps\<close>. The snapshot is not changed.
\<close>

theorem getApps_failures:
  "API_getApps E sent = (r1, sent1) \<Longrightarrow>
   API_getDevice E (UDID d) \<lparr>includeApps = Some True\<rparr> sent1 = (r2, sent2) \<Longrightarrow>
     ((\<exists>e. r1 = Inl e \<or> r2 = Inl e) \<and> (\<forall>e. r1 = Inl e \<or> r2 = Inl e \<longrightarrow> is_APIError_class e)
        \<longrightarrow> Device_getApps E d sent = (Inr [], d, sent2))
   \<and> (r1 = Inr as \<and> r2 = Inr dt \<and> detail_apps dt = None
        \<longrightarrow> Device_getApps E d sent =
              (Inl (Error ''Missing 'apps' property in returned apps''), d, sent2))"
  using getApps_recoverable [of E sent r1 sent1 d r2 sent2]
    getApps_missing [of E sent as sent1 d dt sent2]
  by blast

theorem getApps_failures_witness:
  "Device_getApps apps_down_env sample_device [] =
     (Inr [], sample_device,
      [\<lparr>rq_method = GET, rq_path = ''apps'', rq_searchParams = None, rq_json = None\<rparr>,
       \<lparr>rq_method = GET, rq_path = ''devices/c0ffee'',
        rq_searchParams = Some [(''includeApps'', ''true'')], rq_json = None\<rparr>])
   \<and> Device_getApps apps_up_env sample_device [] =
     (Inl (Error ''Missing 'apps' property in returned apps''), sample_device,
      [\<lparr>rq_method = GET, rq_path = ''apps'', rq_searchParams = None, rq_json = None\<rparr>,
       \<lparr>rq_method = GET, rq_path = ''devices/c0ffee'',
        rq_searchParams = Some [(''includeApps'', ''true'')], rq_json = None\<rparr>])"
proof -
  let ?rq1 = "\<lparr>rq_method = GET, rq_path = ''apps'', rq_searchParams = None, rq_json = None\<rparr>"
  let ?rq2 = "\<lparr>rq_method = GET, rq_path = ''devices/c0ffee'',
               rq_searchParams = Some [(''includeApps'', ''true'')], rq_json = None\<rparr>"
  let ?dt = "\<lparr>detail_UDID = ''c0ffee'', detail_apps = None\<rparr>"
  have u: "UDID sample_device = ''c0ffee''"
    by (simp add: sample_device_def)
  have d1: "API_getDevice apps_down_env (UDID sample_device) \<lparr>includeApps = Some True\<rparr> [?rq1]
            = (Inr ?dt, [?rq1, ?rq2])"
    unfolding u apps_down_env_def detail_lacks_apps by simp
  have d2: "API_getDevice apps_up_env (UDID sample_device) \<lparr>includeApps = Some True\<rparr> [?rq1]
            = (Inr ?dt, [?rq1, ?rq2])"
    unfolding u apps_up_env_def detail_lacks_apps by simp
  have 1: "Device_getApps apps_down_env sample_device [] = (Inr [], sample_device, [?rq1, ?rq2])"
    using getApps_failures [OF apps_down_list d1] by simp
  have 2: "Device_getApps apps_up_env sample_device [] =
     (Inl (Error ''Missing 'apps' property in returned apps''), sample_device, [?rq1, ?rq2])"
    using getApps_failures [OF apps_up_list d2, of "[sample_app]" ?dt] by simp
  show ?thesis using 1 2 by (rule conjI)
qed

text \<open>
  C4 as stated fails on both sides. With the app list down (an \<open>APIError\<close>) and a device
  detail that validates without \<open>apps\<close>, \<open>getApps\<close> returns the empty array and does
  not throw. With the app list down and a snapshot whose UDID fails the check of
  \<open>getDevice\<close>, \<open>getApps\<close> throws the assertion error and does not return the empty array.
\<close>

theorem getApps_counterexample:
  "fst (API_getDevice apps_down_env ''c0ffee'' \<lparr>includeApps = Some True\<rparr>
          (snd (API_getApps apps_down_env [])))
     = Inr \<lparr>detail_UDID = ''c0ffee'', detail_apps = None\<rparr>
   \<and> fst (Device_getApps apps_down_env sample_device []) = Inr []
   \<and> fst (API_getApps apps_down_env []) = Inl (APIError 500)
   \<and> fst (Device_getApps apps_down_env (sample_device\<lparr>UDID := ''xyz''\<rparr>) [])
       = Inl (AssertionError ''Invalid UDID: xyz'')"
proof -
  let ?rq1 = "\<lparr>rq_method = GET, rq_path = ''apps'', rq_searchParams = None, rq_json = None\<rparr>"
  have u: "UDID sample_device = ''c0ffee''" "UDID (sample_device\<lparr>UDID := ''xyz''\<rparr>) = ''xyz''"
    by (simp_all add: sample_device_def)
  have d1: "API_getDevice apps_down_env ''c0ffee'' \<lparr>includeApps = Some True\<rparr> [?rq1]
            = (Inr \<lparr>detail_UDID = ''c0ffee'', detail_apps = None\<rparr>,
               [?rq1] @ [\<lparr>rq_method = GET, rq_path = ''devices/c0ffee'',
                          rq_searchParams = Some [(''includeApps'', ''true'')], rq_json = None\<rparr>])"
    unfolding apps_down_env_def by (rule detail_lacks_apps)
  have 1: "fst (API_getDevice apps_down_env ''c0ffee'' \<lparr>includeApps = Some True\<rparr>
          (snd (API_getApps apps_down_env [])))
     = Inr \<lparr>detail_UDID = ''c0ffee'', detail_apps = None\<rparr>"
    unfolding apps_down_list using d1 by simp
  have 2: "fst (Device_getApps apps_down_env sample_device []) = Inr []"
    unfolding getApps_generic [OF apps_down_list d1 [folded u(1)]]
    by (simp add: Promise_all_def suppressAPIError_def)
  have 3: "fst (API_getApps apps_down_env []) = Inl (APIError 500)"
    unfolding apps_down_list by simp
  have d4: "API_getDevice apps_down_env (UDID (sample_device\<lparr>UDID := ''xyz''\<rparr>))
              \<lparr>includeApps = Some True\<rparr> [?rq1]
            = (Inl (AssertionError ''Invalid UDID: xyz''), [?rq1])"
    unfolding u by (rule detail_invalid_udid)
  have 4: "fst (Device_getApps apps_down_env (sample_device\<lparr>UDID := ''xyz''\<rparr>) [])
       = Inl (AssertionError ''Invalid UDID: xyz'')"
    unfolding getApps_generic [OF apps_down_list d4]
    by (simp add: Promise_all_def suppressAPIError_def)
  show ?thesis using 1 2 3 4 by blast
qed


end
